theory Spec2Isabelle
  imports Complex_Main
begin

section \<open>Python values and exceptions\<close>

text \<open>
  Everything the program reads from the network is decoded JSON: the values of
  \<^verbatim>\<open>response.json()\<close> and of \<^verbatim>\<open>json.loads\<close>. A string is its list of
  characters, an object its list of key/value pairs in insertion order. A number with a
  fraction or an exponent is a \<open>JFloat\<close>; the program never computes with one, it only
  compares it with 100 (NaN and the infinities are left out).
\<close>

datatype json =
    JNull
  | JBool bool
  | JInt int
  | JFloat real
  | JStr string
  | JArr "json list"
  | JObj "(string \<times> json) list"

text \<open>
  The exceptions that can travel through the program. \<open>RequestException\<close> stands for
  \<^verbatim>\<open>requests.exceptions.RequestException\<close> and its subclasses that are not JSON
  errors; \<open>RequestsJSONDecodeError\<close> is \<^verbatim>\<open>requests.exceptions.JSONDecodeError\<close>
  (requests 2.27 and later), which is a \<open>RequestException\<close>, a \<open>json.JSONDecodeError\<close>
  and a \<open>ValueError\<close> at once; \<open>JSONDecodeError\<close> is the one of the standard library,
  a \<open>ValueError\<close>. The string is what \<^verbatim>\<open>str(e)\<close> gives.
\<close>

datatype exn =
    KeyError string
  | IndexError string
  | TypeError
  | AttributeError
  | ValueError string
  | JSONDecodeError string
  | RequestException string
  | RequestsJSONDecodeError string
  | AIError string
  | WordPressAPIError string

fun is_RequestException :: "exn \<Rightarrow> bool" where
  "is_RequestException (RequestException m) = True"
| "is_RequestException (RequestsJSONDecodeError m) = True"
| "is_RequestException e = False"

fun is_ValueError :: "exn \<Rightarrow> bool" where
  "is_ValueError (ValueError m) = True"
| "is_ValueError (JSONDecodeError m) = True"
| "is_ValueError (RequestsJSONDecodeError m) = True"
| "is_ValueError e = False"

text \<open>
  \<^verbatim>\<open>str(e)\<close>. The program formats the text of request, value and API errors only;
  for a \<open>TypeError\<close> or an \<open>AttributeError\<close> the class name stands for a text that is
  never read.
\<close>

fun exn_str :: "exn \<Rightarrow> string" where
  "exn_str (KeyError k) = k"
| "exn_str (IndexError m) = m"
| "exn_str (ValueError m) = m"
| "exn_str (JSONDecodeError m) = m"
| "exn_str (RequestException m) = m"
| "exn_str (RequestsJSONDecodeError m) = m"
| "exn_str (AIError m) = m"
| "exn_str (WordPressAPIError m) = m"
| "exn_str TypeError = ''TypeError''"
| "exn_str AttributeError = ''AttributeError''"

text \<open>\<^verbatim>\<open>repr\<close> of a string key, as \<^verbatim>\<open>str(KeyError(key))\<close> shows it.\<close>

definition key_repr :: "string \<Rightarrow> string" where
  "key_repr k = [CHR 0x27] @ k @ [CHR 0x27]"

subsection \<open>The operations of Python the program applies to decoded JSON\<close>

text \<open>\<^verbatim>\<open>v[key]\<close> with a string key.\<close>

fun getitem :: "json \<Rightarrow> string \<Rightarrow> exn + json" where
  "getitem (JObj kv) k =
     (case map_of kv k of None \<Rightarrow> Inl (KeyError (key_repr k)) | Some v \<Rightarrow> Inr v)"
| "getitem v k = Inl TypeError"

text \<open>
  \<^verbatim>\<open>v[0]\<close>: the first element of a list, the first character of a string; an object
  decoded from JSON has string keys only, so the key 0 is missing.
\<close>

fun getitem0 :: "json \<Rightarrow> exn + json" where
  "getitem0 (JArr []) = Inl (IndexError ''list index out of range'')"
| "getitem0 (JArr (x # xs)) = Inr x"
| "getitem0 (JStr []) = Inl (IndexError ''string index out of range'')"
| "getitem0 (JStr (c # cs)) = Inr (JStr [c])"
| "getitem0 (JObj kv) = Inl (KeyError ''0'')"
| "getitem0 v = Inl TypeError"

fun is_substring :: "string \<Rightarrow> string \<Rightarrow> bool" where
  "is_substring p [] = (p = [])"
| "is_substring p (c # cs) = (take (length p) (c # cs) = p \<or> is_substring p cs)"

text \<open>
  \<^verbatim>\<open>key in v\<close>: key membership in an object, element membership in a list, substring
  test in a string; the other values are not iterable.
\<close>

fun contains :: "string \<Rightarrow> json \<Rightarrow> exn + bool" where
  "contains k (JObj kv) = Inr (map_of kv k \<noteq> None)"
| "contains k (JArr xs) = Inr (JStr k \<in> set xs)"
| "contains k (JStr s) = Inr (is_substring k s)"
| "contains k v = Inl TypeError"

text \<open>\<^verbatim>\<open>for x in v\<close>: the elements of a list, the keys of an object, the characters of a string.\<close>

fun iterate :: "json \<Rightarrow> exn + json list" where
  "iterate (JArr xs) = Inr xs"
| "iterate (JObj kv) = Inr (map (\<lambda>(k, v). JStr k) kv)"
| "iterate (JStr s) = Inr (map (\<lambda>c. JStr [c]) s)"
| "iterate v = Inl TypeError"

text \<open>\<^verbatim>\<open>v.get(key, default)\<close>: only an object has the method.\<close>

fun py_get :: "json \<Rightarrow> string \<Rightarrow> json \<Rightarrow> exn + json" where
  "py_get (JObj kv) k d = Inr (case map_of kv k of None \<Rightarrow> d | Some v \<Rightarrow> v)"
| "py_get v k d = Inl AttributeError"

text \<open>
  \<^verbatim>\<open>min(v, 100)\<close> returns \<open>v\<close> unless \<open>100 < v\<close>; a boolean compares as 0 or 1;
  a string, a list, an object or None cannot be compared with an integer.
\<close>

fun min_100 :: "json \<Rightarrow> exn + json" where
  "min_100 (JInt n) = Inr (JInt (if 100 < n then 100 else n))"
| "min_100 (JBool b) = Inr (JBool b)"
| "min_100 (JFloat x) = Inr (if 100 < x then JInt 100 else JFloat x)"
| "min_100 v = Inl TypeError"

text \<open>
  \<^verbatim>\<open>xs[:n]\<close> on a list: the first \<open>n\<close> elements, and for a negative \<open>n\<close> all but the
  last \<open>-n\<close>.
\<close>

definition slice_to :: "'a list \<Rightarrow> int \<Rightarrow> 'a list" where
  "slice_to xs n = (if 0 \<le> n then take (nat n) xs else take (nat (int (length xs) + n)) xs)"

text \<open>\<^verbatim>\<open>xs[:v]\<close> with the bound as it arrives: an integer or a boolean is an index.\<close>

fun slice_upto :: "'a list \<Rightarrow> json \<Rightarrow> exn + 'a list" where
  "slice_upto xs (JInt n) = Inr (slice_to xs n)"
| "slice_upto xs (JBool b) = Inr (slice_to xs (if b then 1 else 0))"
| "slice_upto xs JNull = Inr xs"
| "slice_upto xs v = Inl TypeError"

fun digit_char :: "nat \<Rightarrow> char" where
  "digit_char n = char_of (48 + n)"

text \<open>\<^verbatim>\<open>str(n)\<close> of a natural number.\<close>

fun str_of_nat :: "nat \<Rightarrow> string" where
  "str_of_nat n = (if n < 10 then [digit_char n] else str_of_nat (n div 10) @ [digit_char (n mod 10)])"

declare str_of_nat.simps [simp del]

text \<open>Sequencing of steps that may raise: the first exception ends the block.\<close>

definition bind_exn :: "exn + 'a \<Rightarrow> ('a \<Rightarrow> exn + 'b) \<Rightarrow> exn + 'b" where
  "bind_exn m f = (case m of Inl e \<Rightarrow> Inl e | Inr x \<Rightarrow> f x)"

section \<open>The world outside the program\<close>

text \<open>
  The HTTP requests the program issues. A chat completion is identified by its model, the
  user's query and, for the analysis request, the formatted results embedded in the user
  message; a content request by its \<open>per_page\<close> parameter or by the identifier in its path.
\<close>

datatype request =
    ChatWithTools string string
  | ChatAnalysis string string string
  | ContentList json
  | ContentItem int
  | ContentProbe

text \<open>The two mutable fields of \<^verbatim>\<open>WordPressClient\<close>, in seconds.\<close>

record wp_client =
  last_request_time :: real
  min_request_interval :: real

text \<open>
  The state the program changes: the client's fields, the clock that \<^verbatim>\<open>time.time()\<close>
  reads, the number of clock operations so far, and the requests sent, oldest first.
\<close>

record world =
  client :: wp_client
  clock :: real
  ticks :: nat
  sent :: "request list"

text \<open>
  What the program does not decide. \<open>http\<close> is one exchange, that is the call of
  \<^verbatim>\<open>requests.post\<close> or \<^verbatim>\<open>session.get\<close>, \<^verbatim>\<open>raise_for_status()\<close> and
  \<^verbatim>\<open>response.json()\<close> together: the exception one of them raises, or the decoded body;
  it may depend on the requests sent before. \<open>json_loads\<close> is \<^verbatim>\<open>json.loads\<close> on a
  string, \<open>Inl\<close> the text of its \<open>JSONDecodeError\<close>. \<open>py_repr\<close> is \<^verbatim>\<open>str()\<close> of a
  value that is not a string. \<open>slice_hashable\<close> tells whether the interpreter hashes
  slices (Python 3.12 and later), which decides the exception of \<^verbatim>\<open>d[:200]\<close> on an
  object. \<open>delay k\<close> is the time that passes before the \<open>k\<close>-th clock operation
  completes, beyond what the program asked for. \<open>config_max_results\<close> is
  \<^verbatim>\<open>config.max_results\<close>.
\<close>

record env =
  config_max_results :: int
  http :: "request list \<Rightarrow> request \<Rightarrow> exn + json"
  json_loads :: "string \<Rightarrow> string + json"
  py_repr :: "json \<Rightarrow> string"
  slice_hashable :: bool
  delay :: "nat \<Rightarrow> real"

definition exchange :: "env \<Rightarrow> request \<Rightarrow> world \<Rightarrow> (exn + json) \<times> world" where
  "exchange env req w = (http env (sent w) req, w\<lparr>sent := sent w @ [req]\<rparr>)"

definition time_time :: "env \<Rightarrow> world \<Rightarrow> real \<times> world" where
  "time_time env w =
     (let t = clock w + delay env (ticks w)
      in (t, w\<lparr>clock := t, ticks := Suc (ticks w)\<rparr>))"

definition time_sleep :: "env \<Rightarrow> real \<Rightarrow> world \<Rightarrow> world" where
  "time_sleep env secs w =
     w\<lparr>clock := clock w + secs + delay env (ticks w), ticks := Suc (ticks w)\<rparr>"

section \<open>wordpress\_client.py\<close>

definition rate_limit :: "env \<Rightarrow> world \<Rightarrow> world" where
  "rate_limit env w =
     (let (current_time, w1) = time_time env w;
          time_since_last = current_time - last_request_time (client w1);
          w2 = (if time_since_last < min_request_interval (client w1)
                then time_sleep env (min_request_interval (client w1) - time_since_last) w1
                else w1);
          (t, w3) = time_time env w2
      in w3\<lparr>client := (client w3)\<lparr>last_request_time := t\<rparr>\<rparr>)"

text \<open>The dictionary \<^verbatim>\<open>_format_content_item\<close> returns, one field per key.\<close>

record content_record =
  c_id :: json
  c_title :: json
  c_excerpt :: json
  c_content :: json
  c_url :: json
  c_date :: json
  c_author :: json
  c_type :: json
  c_slug :: json

definition dict_get :: "(string \<times> json) list \<Rightarrow> string \<Rightarrow> json \<Rightarrow> json" where
  "dict_get kv k d = (case map_of kv k of None \<Rightarrow> d | Some v \<Rightarrow> v)"

text \<open>
  \<^verbatim>\<open>_format_content_item(self, item)\<close>. The first statement calls \<^verbatim>\<open>item.get\<close>,
  which only an object has; from there on every read is a \<^verbatim>\<open>get\<close> with a default.
\<close>

fun format_content_item :: "wp_client \<Rightarrow> json \<Rightarrow> exn + content_record" where
  "format_content_item self (JObj item) =
     (let author_info = dict_get item ''author'' (JObj []);
          author_name = (case author_info of
                           JObj a \<Rightarrow> dict_get a ''name'' (JStr ''Unknown'')
                         | _ \<Rightarrow> JStr ''Unknown'')
      in Inr \<lparr>c_id = dict_get item ''id'' JNull,
             c_title = dict_get item ''title'' (JStr ''Untitled''),
             c_excerpt = dict_get item ''excerpt'' (JStr []),
             c_content = dict_get item ''content'' (JStr []),
             c_url = dict_get item ''url'' (JStr []),
             c_date = dict_get item ''date'' (JStr []),
             c_author = author_name,
             c_type = dict_get item ''type'' (JStr ''post''),
             c_slug = dict_get item ''slug'' (JStr [])\<rparr>)"
| "format_content_item self item = Inl AttributeError"

text \<open>The list comprehension of \<^verbatim>\<open>_filter_content_by_query\<close>, element by element.\<close>

fun format_all :: "wp_client \<Rightarrow> json list \<Rightarrow> exn + content_record list" where
  "format_all self [] = Inr []"
| "format_all self (item # items) =
     bind_exn (format_content_item self item) (\<lambda>r.
     bind_exn (format_all self items) (\<lambda>rs. Inr (r # rs)))"

definition filter_content_by_query :: "wp_client \<Rightarrow> json \<Rightarrow> json \<Rightarrow> exn + content_record list" where
  "filter_content_by_query self content query =
     bind_exn (iterate content) (format_all self)"

text \<open>The body of the \<^verbatim>\<open>try\<close> block of \<^verbatim>\<open>search_content\<close>.\<close>

definition search_content_try :: "env \<Rightarrow> json \<Rightarrow> json \<Rightarrow> world \<Rightarrow> (exn + content_record list) \<times> world" where
  "search_content_try env query max_results w =
     (case min_100 max_results of
        Inl e \<Rightarrow> (Inl e, w)
      | Inr per_page \<Rightarrow>
          (case exchange env (ContentList per_page) w of
             (Inl e, w') \<Rightarrow> (Inl e, w')
           | (Inr all_content, w') \<Rightarrow>
               (bind_exn (filter_content_by_query (client w') all_content query)
                  (\<lambda>filtered_content. slice_upto filtered_content max_results), w')))"

text \<open>The two \<^verbatim>\<open>except\<close> clauses of \<^verbatim>\<open>search_content\<close>, in their order.\<close>

definition search_content_except :: "exn \<Rightarrow> exn" where
  "search_content_except e =
     (if is_RequestException e
      then WordPressAPIError (''WordPress API request failed: '' @ exn_str e)
      else if is_ValueError e
      then WordPressAPIError (''Invalid response from WordPress API: '' @ exn_str e)
      else e)"

definition search_content :: "env \<Rightarrow> json \<Rightarrow> json \<Rightarrow> world \<Rightarrow> (exn + content_record list) \<times> world" where
  "search_content env query max_results w =
     (let max_results' = (if max_results = JNull then JInt (config_max_results env) else max_results);
          w1 = rate_limit env w
      in case search_content_try env query max_results' w1 of
           (Inl e, w2) \<Rightarrow> (Inl (search_content_except e), w2)
         | (Inr rs, w2) \<Rightarrow> (Inr rs, w2))"

text \<open>\<^verbatim>\<open>get_content_by_id\<close>: \<open>None\<close> is the absent record.\<close>

definition get_content_by_id :: "env \<Rightarrow> int \<Rightarrow> world \<Rightarrow> (exn + content_record option) \<times> world" where
  "get_content_by_id env content_id w =
     (let w1 = rate_limit env w
      in case exchange env (ContentItem content_id) w1 of
           (Inl e, w2) \<Rightarrow> (if is_RequestException e then Inr None else Inl e, w2)
         | (Inr body, w2) \<Rightarrow>
             (case format_content_item (client w2) body of
                Inl e \<Rightarrow> (if is_RequestException e then Inr None else Inl e, w2)
              | Inr r \<Rightarrow> (Inr (Some r), w2)))"

text \<open>\<^verbatim>\<open>test_connection\<close>: the body of the response is not read.\<close>

definition test_connection :: "env \<Rightarrow> world \<Rightarrow> (exn + bool) \<times> world" where
  "test_connection env w =
     (let w1 = rate_limit env w
      in case exchange env ContentProbe w1 of
           (Inl e, w2) \<Rightarrow> (if is_RequestException e then Inr False else Inl e, w2)
         | (Inr body, w2) \<Rightarrow> (Inr True, w2))"

section \<open>ai\_search.py\<close>

text \<open>
  The two fields of \<^verbatim>\<open>AISearchEngine\<close> that decide which models are asked; its
  \<^verbatim>\<open>wordpress_client\<close> is the \<open>client\<close> of the world.
\<close>

record engine =
  current_model :: string
  fallback_models :: "string list"

text \<open>
  The dictionary \<^verbatim>\<open>search\<close> returns. \<open>analysis\<close> and \<open>model_used\<close> are read from
  decoded responses without a check of their type, so they are JSON values.
\<close>

record search_result =
  query :: string
  results :: "content_record list"
  analysis :: json
  model_used :: json
  total_results :: nat

definition newline :: string where
  "newline = [CHR 0x0A]"

text \<open>\<^verbatim>\<open>str(v)\<close> as an f-string applies it.\<close>

fun py_str :: "env \<Rightarrow> json \<Rightarrow> string" where
  "py_str env (JStr s) = s"
| "py_str env v = py_repr env v"

text \<open>\<^verbatim>\<open>v[:200]\<close> on a value of unknown type.\<close>

fun slice_200 :: "env \<Rightarrow> json \<Rightarrow> exn + json" where
  "slice_200 env (JStr s) = Inr (JStr (take 200 s))"
| "slice_200 env (JArr xs) = Inr (JArr (take 200 xs))"
| "slice_200 env (JObj kv) =
     Inl (if slice_hashable env then KeyError ''slice(None, 200, None)'' else TypeError)"
| "slice_200 env v = Inl TypeError"

definition format_result :: "env \<Rightarrow> nat \<Rightarrow> content_record \<Rightarrow> exn + string" where
  "format_result env i item =
     bind_exn (slice_200 env (c_excerpt item)) (\<lambda>excerpt.
       Inr (newline @ ''Result '' @ str_of_nat i @ '':'' @ newline
            @ ''Title: '' @ py_str env (c_title item) @ newline
            @ ''Excerpt: '' @ py_str env excerpt @ ''...'' @ newline
            @ ''URL: '' @ py_str env (c_url item) @ newline
            @ ''Author: '' @ py_str env (c_author item) @ newline
            @ ''Date: '' @ py_str env (c_date item) @ newline))"

text \<open>The loop over \<^verbatim>\<open>enumerate(results, 1)\<close>, from index \<open>i\<close> on.\<close>

fun format_results_from :: "env \<Rightarrow> nat \<Rightarrow> content_record list \<Rightarrow> exn + string list" where
  "format_results_from env i [] = Inr []"
| "format_results_from env i (item # items) =
     bind_exn (format_result env i item) (\<lambda>s.
     bind_exn (format_results_from env (Suc i) items) (\<lambda>ss. Inr (s # ss)))"

text \<open>\<^verbatim>\<open>sep.join(parts)\<close>.\<close>

fun join :: "string \<Rightarrow> string list \<Rightarrow> string" where
  "join sep [] = []"
| "join sep [s] = s"
| "join sep (s # t # ss) = s @ sep @ join sep (t # ss)"

definition format_results_for_ai :: "env \<Rightarrow> content_record list \<Rightarrow> exn + string" where
  "format_results_for_ai env rs =
     (if rs = [] then Inr ''No content found.''
      else bind_exn (format_results_from env 1 rs) (\<lambda>formatted. Inr (join newline formatted)))"

text \<open>\<^verbatim>\<open>response['choices'][0]['message']\<close>.\<close>

definition response_message :: "json \<Rightarrow> exn + json" where
  "response_message response =
     bind_exn (getitem response ''choices'') (\<lambda>choices.
     bind_exn (getitem0 choices) (\<lambda>choice.
     getitem choice ''message''))"

text \<open>
  \<^verbatim>\<open>_get_ai_analysis\<close>: the request names \<^verbatim>\<open>self.current_model\<close>; the only
  \<^verbatim>\<open>except\<close> clause is for \<open>RequestException\<close>.
\<close>

definition get_ai_analysis :: "engine \<Rightarrow> env \<Rightarrow> string \<Rightarrow> string \<Rightarrow> world \<Rightarrow> (exn + json) \<times> world" where
  "get_ai_analysis eng env user_query formatted_results w =
     (case exchange env (ChatAnalysis (current_model eng) user_query formatted_results) w of
        (r, w') \<Rightarrow>
          (case bind_exn r (\<lambda>result.
                  bind_exn (response_message result) (\<lambda>message.
                  getitem message ''content'')) of
             Inl e \<Rightarrow>
               (if is_RequestException e
                then Inr (JStr ''Unable to analyze results at this time.'')
                else Inl e, w')
           | Inr content \<Rightarrow> (Inr content, w')))"

text \<open>
  Lines 153 to 170 of \<^verbatim>\<open>_process_ai_response\<close>: the retrieval with the query and
  the limit the tool call ends up with, the analysis, and the result.
\<close>

definition retrieve_and_analyse ::
  "engine \<Rightarrow> env \<Rightarrow> json \<Rightarrow> string \<Rightarrow> json \<Rightarrow> json \<Rightarrow> world \<Rightarrow> (exn + search_result) \<times> world" where
  "retrieve_and_analyse eng env ai_response user_query search_query search_max_results w =
     (case search_content env search_query search_max_results w of
        (Inl e, w1) \<Rightarrow> (Inl e, w1)
      | (Inr wordpress_results, w1) \<Rightarrow>
          (case format_results_for_ai env wordpress_results of
             Inl e \<Rightarrow> (Inl e, w1)
           | Inr formatted_results \<Rightarrow>
               (case get_ai_analysis eng env user_query formatted_results w1 of
                  (Inl e, w2) \<Rightarrow> (Inl e, w2)
                | (Inr a, w2) \<Rightarrow>
                    (bind_exn (getitem ai_response ''model'') (\<lambda>m.
                       Inr \<lparr>query = user_query, results = wordpress_results, analysis = a,
                            model_used = m, total_results = length wordpress_results\<rparr>), w2))))"

text \<open>\<^verbatim>\<open>json.loads(v)\<close>: on a string the decoder decides; another value is a TypeError.\<close>

fun loads :: "env \<Rightarrow> json \<Rightarrow> exn + json" where
  "loads env (JStr s) = (case json_loads env s of Inl m \<Rightarrow> Inl (JSONDecodeError m) | Inr v \<Rightarrow> Inr v)"
| "loads env v = Inl TypeError"

text \<open>Lines 149 to 170: the block run for a tool call that names the retrieval tool.\<close>

definition run_search_tool ::
  "engine \<Rightarrow> env \<Rightarrow> json \<Rightarrow> string \<Rightarrow> int \<Rightarrow> json \<Rightarrow> world \<Rightarrow> (exn + search_result) \<times> world" where
  "run_search_tool eng env ai_response user_query max_results tool_call w =
     (case bind_exn (getitem tool_call ''function'') (\<lambda>f.
           bind_exn (getitem f ''arguments'') (\<lambda>arguments.
           bind_exn (loads env arguments) (\<lambda>args.
           bind_exn (py_get args ''query'' (JStr user_query)) (\<lambda>search_query.
           bind_exn (py_get args ''maxResults'' (JInt max_results)) (\<lambda>search_max_results.
           Inr (search_query, search_max_results)))))) of
        Inl e \<Rightarrow> (Inl e, w)
      | Inr (search_query, search_max_results) \<Rightarrow>
          retrieve_and_analyse eng env ai_response user_query search_query search_max_results w)"

text \<open>\<^verbatim>\<open>tool_call['function']['name']\<close>.\<close>

definition tool_name :: "json \<Rightarrow> exn + json" where
  "tool_name tool_call = bind_exn (getitem tool_call ''function'') (\<lambda>f. getitem f ''name'')"

text \<open>
  The loop over \<^verbatim>\<open>tool_calls\<close>: \<open>Inr None\<close> when it ends without a \<^verbatim>\<open>return\<close>.
\<close>

fun tool_loop ::
  "engine \<Rightarrow> env \<Rightarrow> json \<Rightarrow> string \<Rightarrow> int \<Rightarrow> json list \<Rightarrow> world \<Rightarrow> (exn + search_result option) \<times> world" where
  "tool_loop eng env ai_response user_query max_results [] w = (Inr None, w)"
| "tool_loop eng env ai_response user_query max_results (tool_call # rest) w =
     (case tool_name tool_call of
        Inl e \<Rightarrow> (Inl e, w)
      | Inr name \<Rightarrow>
          if name = JStr ''search_wordpress''
          then (case run_search_tool eng env ai_response user_query max_results tool_call w of
                  (Inl e, w') \<Rightarrow> (Inl e, w')
                | (Inr r, w') \<Rightarrow> (Inr (Some r), w'))
          else tool_loop eng env ai_response user_query max_results rest w)"

text \<open>Lines 173 to 179: the model's direct response.\<close>

definition direct_response :: "json \<Rightarrow> string \<Rightarrow> json \<Rightarrow> exn + search_result" where
  "direct_response ai_response user_query message =
     bind_exn (py_get message ''content'' (JStr ''No relevant content found.'')) (\<lambda>a.
     bind_exn (getitem ai_response ''model'') (\<lambda>m.
       Inr \<lparr>query = user_query, results = [], analysis = a, model_used = m, total_results = 0\<rparr>))"

text \<open>The body of the \<^verbatim>\<open>try\<close> block of \<^verbatim>\<open>_process_ai_response\<close>.\<close>

definition process_ai_response_try ::
  "engine \<Rightarrow> env \<Rightarrow> json \<Rightarrow> string \<Rightarrow> int \<Rightarrow> world \<Rightarrow> (exn + search_result) \<times> world" where
  "process_ai_response_try eng env ai_response user_query max_results w =
     (case bind_exn (response_message ai_response) (\<lambda>message.
           bind_exn (contains ''tool_calls'' message) (\<lambda>has_tool_calls.
           Inr (message, has_tool_calls))) of
        Inl e \<Rightarrow> (Inl e, w)
      | Inr (message, has_tool_calls) \<Rightarrow>
          (case (if has_tool_calls
                 then (case bind_exn (getitem message ''tool_calls'') iterate of
                         Inl e \<Rightarrow> (Inl e, w)
                       | Inr tool_calls \<Rightarrow>
                           tool_loop eng env ai_response user_query max_results tool_calls w)
                 else (Inr None, w)) of
             (Inl e, w') \<Rightarrow> (Inl e, w')
           | (Inr (Some r), w') \<Rightarrow> (Inr r, w')
           | (Inr None, w') \<Rightarrow> (direct_response ai_response user_query message, w')))"

text \<open>
  The clause \<^verbatim>\<open>except (KeyError, IndexError, json.JSONDecodeError)\<close>; any other
  exception leaves \<^verbatim>\<open>_process_ai_response\<close> as it is.
\<close>

fun process_ai_response_except :: "exn \<Rightarrow> exn" where
  "process_ai_response_except (KeyError k) = AIError (''Failed to process AI response: '' @ k)"
| "process_ai_response_except (IndexError m) = AIError (''Failed to process AI response: '' @ m)"
| "process_ai_response_except (JSONDecodeError m) = AIError (''Failed to process AI response: '' @ m)"
| "process_ai_response_except (RequestsJSONDecodeError m) = AIError (''Failed to process AI response: '' @ m)"
| "process_ai_response_except e = e"

definition process_ai_response ::
  "engine \<Rightarrow> env \<Rightarrow> json \<Rightarrow> string \<Rightarrow> int \<Rightarrow> world \<Rightarrow> (exn + search_result) \<times> world" where
  "process_ai_response eng env ai_response user_query max_results w =
     (case process_ai_response_try eng env ai_response user_query max_results w of
        (Inl e, w') \<Rightarrow> (Inl (process_ai_response_except e), w')
      | (Inr r, w') \<Rightarrow> (Inr r, w'))"

text \<open>
  \<^verbatim>\<open>_search_with_model\<close>: the request, then the response processed inside the same
  \<^verbatim>\<open>try\<close>, whose only clause turns a \<open>RequestException\<close> into an \<open>AIError\<close>.
\<close>

definition search_with_model_except :: "exn \<Rightarrow> exn" where
  "search_with_model_except e =
     (if is_RequestException e then AIError (''OpenRouter API request failed: '' @ exn_str e) else e)"

definition search_with_model ::
  "engine \<Rightarrow> env \<Rightarrow> string \<Rightarrow> int \<Rightarrow> string \<Rightarrow> world \<Rightarrow> (exn + search_result) \<times> world" where
  "search_with_model eng env user_query max_results model w =
     (case exchange env (ChatWithTools model user_query) w of
        (Inl e, w1) \<Rightarrow> (Inl (search_with_model_except e), w1)
      | (Inr result, w1) \<Rightarrow>
          (case process_ai_response eng env result user_query max_results w1 of
             (Inl e, w2) \<Rightarrow> (Inl (search_with_model_except e), w2)
           | (Inr r, w2) \<Rightarrow> (Inr r, w2)))"

text \<open>\<^verbatim>\<open>_fallback_search\<close>: only a \<open>WordPressAPIError\<close> is caught.\<close>

definition fallback_search ::
  "engine \<Rightarrow> env \<Rightarrow> string \<Rightarrow> int \<Rightarrow> world \<Rightarrow> (exn + search_result) \<times> world" where
  "fallback_search eng env user_query max_results w =
     (case search_content env (JStr user_query) (JInt max_results) w of
        (Inr rs, w') \<Rightarrow>
          (Inr \<lparr>query = user_query, results = rs,
                analysis = JStr (''Found '' @ str_of_nat (length rs)
                   @ '' results for your query. (Fallback search - AI analysis unavailable)''),
                model_used = JStr ''fallback'', total_results = length rs\<rparr>, w')
      | (Inl (WordPressAPIError m), w') \<Rightarrow>
          (Inr \<lparr>query = user_query, results = [],
                analysis = JStr (''Search failed: '' @ m),
                model_used = JStr ''error'', total_results = 0\<rparr>, w')
      | (Inl e, w') \<Rightarrow> (Inl e, w'))"

text \<open>
  The loop of \<^verbatim>\<open>search\<close> over the models: \<open>Some\<close> the result of the first model that
  returns, \<open>None\<close> when every model raised (\<^verbatim>\<open>except Exception\<close> catches them all).
\<close>

fun try_models ::
  "engine \<Rightarrow> env \<Rightarrow> string \<Rightarrow> int \<Rightarrow> string list \<Rightarrow> world \<Rightarrow> search_result option \<times> world" where
  "try_models eng env user_query max_results [] w = (None, w)"
| "try_models eng env user_query max_results (model # models) w =
     (case search_with_model eng env user_query max_results model w of
        (Inr r, w') \<Rightarrow> (Some r, w')
      | (Inl e, w') \<Rightarrow> try_models eng env user_query max_results models w')"

definition search ::
  "engine \<Rightarrow> env \<Rightarrow> string \<Rightarrow> int option \<Rightarrow> world \<Rightarrow> (exn + search_result) \<times> world" where
  "search eng env user_query max_results w =
     (let max_results' = (case max_results of None \<Rightarrow> config_max_results env | Some n \<Rightarrow> n)
      in case try_models eng env user_query max_results'
                (current_model eng # fallback_models eng) w of
           (Some r, w') \<Rightarrow> (Inr r, w')
         | (None, w') \<Rightarrow> fallback_search eng env user_query max_results' w')"

section \<open>Notions used to state the properties\<close>

text \<open>\<^verbatim>\<open>WordPressClient.__init__\<close>: no request yet, 100 ms between requests.\<close>

definition new_client :: wp_client where
  "new_client = \<lparr>last_request_time = 0, min_request_interval = 1 / 10\<rparr>"

text \<open>
  A raw record has no author name: the key \<open>author\<close> is missing, or its value is not an
  object, or it is an object without the key \<open>name\<close>.
\<close>

definition author_name_missing :: "(string \<times> json) list \<Rightarrow> bool" where
  "author_name_missing item =
     (case map_of item ''author'' of
        Some (JObj a) \<Rightarrow> map_of a ''name'' = None
      | _ \<Rightarrow> True)"

text \<open>The calls a user of the content client can make, and a sequence of them.\<close>

datatype client_call = SearchContent json json | GetContentById int | TestConnection

fun run_call :: "env \<Rightarrow> client_call \<Rightarrow> world \<Rightarrow> world" where
  "run_call env (SearchContent q max_results) w = snd (search_content env q max_results w)"
| "run_call env (GetContentById content_id) w = snd (get_content_by_id env content_id w)"
| "run_call env TestConnection w = snd (test_connection env w)"

fun run_calls :: "env \<Rightarrow> client_call list \<Rightarrow> world \<Rightarrow> world" where
  "run_calls env [] w = w"
| "run_calls env (c # cs) w = run_calls env cs (run_call env c w)"

text \<open>The state right after a request: the timestamp is the clock's reading.\<close>

definition stamped :: "world \<Rightarrow> bool" where
  "stamped w = (last_request_time (client w) = clock w \<and> min_request_interval (client w) = 1 / 10)"

text \<open>\<open>w'\<close> comes from \<open>w\<close> by sending further requests, each of which satisfies \<open>P\<close>.\<close>

definition extends_by :: "(request \<Rightarrow> bool) \<Rightarrow> world \<Rightarrow> world \<Rightarrow> bool" where
  "extends_by P w w' =
     (take (length (sent w)) (sent w') = sent w \<and> list_all P (drop (length (sent w)) (sent w')))"

text \<open>
  The requests the processing of one model's response may send: content listings and
  analysis requests to the engine's \<open>current_model\<close>.
\<close>

fun inner_request :: "engine \<Rightarrow> request \<Rightarrow> bool" where
  "inner_request eng (ContentList per_page) = True"
| "inner_request eng (ChatAnalysis model q formatted) = (model = current_model eng)"
| "inner_request eng req = False"

text \<open>An analysis request names the model \<open>m\<close>; any other request passes.\<close>

fun analysis_to :: "string \<Rightarrow> request \<Rightarrow> bool" where
  "analysis_to m (ChatAnalysis model q formatted) = (model = m)"
| "analysis_to m req = True"

text \<open>The models of the tool-calling requests among \<open>reqs\<close>, in the order sent.\<close>

fun models_asked :: "request list \<Rightarrow> string list" where
  "models_asked [] = []"
| "models_asked (ChatWithTools model q # reqs) = model # models_asked reqs"
| "models_asked (req # reqs) = models_asked reqs"

subsection \<open>Concrete runs\<close>

text \<open>
  An environment in which every request fails in transport, and the state of a fresh
  process at clock reading 1000; the runs below change the fields they need.
\<close>

definition quiet_env :: env where
  "quiet_env = \<lparr>config_max_results = 5,
                http = (\<lambda>hist req. Inl (RequestException ''connection refused'')),
                json_loads = (\<lambda>s. Inl ''Expecting value''),
                py_repr = (\<lambda>v. ''?''),
                slice_hashable = True,
                delay = (\<lambda>k. 0)\<rparr>"

definition world0 :: world where
  "world0 = \<lparr>client = new_client, clock = 1000, ticks = 0, sent = []\<rparr>"

text \<open>A tool call that names another tool than the retrieval tool.\<close>

definition other_tool :: "json \<Rightarrow> bool" where
  "other_tool tool_call =
     (case tool_name tool_call of Inr name \<Rightarrow> name \<noteq> JStr ''search_wordpress'' | Inl e \<Rightarrow> False)"

text \<open>
  The limit a tool call ends up with when \<open>max_results\<close> was requested: the reads of
  lines 149 and 151 of \<^verbatim>\<open>_process_ai_response\<close>.
\<close>

definition tool_call_limit :: "env \<Rightarrow> int \<Rightarrow> json \<Rightarrow> exn + json" where
  "tool_call_limit env max_results tool_call =
     bind_exn (getitem tool_call ''function'') (\<lambda>f.
     bind_exn (getitem f ''arguments'') (\<lambda>arguments.
     bind_exn (loads env arguments) (\<lambda>args.
     py_get args ''maxResults'' (JInt max_results))))"

text \<open>The tool calls of a response that name the retrieval tool.\<close>

definition retrieval_calls :: "json \<Rightarrow> json list" where
  "retrieval_calls response =
     (case bind_exn (response_message response) (\<lambda>message.
           bind_exn (getitem message ''tool_calls'') iterate) of
        Inr tool_calls \<Rightarrow> filter (\<lambda>tool_call. tool_name tool_call = Inr (JStr ''search_wordpress'')) tool_calls
      | Inl e \<Rightarrow> [])"





text \<open>The models of the analysis requests among \<open>reqs\<close>, in the order sent.\<close>

fun analysis_models :: "request list \<Rightarrow> string list" where
  "analysis_models [] = []"
| "analysis_models (ChatAnalysis model q formatted # reqs) = model # analysis_models reqs"
| "analysis_models (req # reqs) = analysis_models reqs"

text \<open>
  A completion that calls the retrieval tool with the given arguments string, and one
  that answers in text; both carry the \<open>model\<close> field the gateway reports.
\<close>

definition tool_call_response :: "string \<Rightarrow> string \<Rightarrow> json" where
  "tool_call_response model arguments =
     JObj [(''model'', JStr model),
           (''choices'', JArr [JObj [(''message'',
              JObj [(''role'', JStr ''assistant''), (''content'', JNull),
                    (''tool_calls'', JArr [JObj [(''id'', JStr ''call_1''), (''type'', JStr ''function''),
                       (''function'', JObj [(''name'', JStr ''search_wordpress''),
                                            (''arguments'', JStr arguments)])]])])]])]"

definition text_response :: "string \<Rightarrow> string \<Rightarrow> json" where
  "text_response model text =
     JObj [(''model'', JStr model),
           (''choices'', JArr [JObj [(''message'',
              JObj [(''role'', JStr ''assistant''), (''content'', JStr text)])]])]"

text \<open>A raw record of the content endpoint and what it is normalised to.\<close>

definition post :: "int \<Rightarrow> json" where
  "post i = JObj [(''id'', JInt i), (''title'', JStr ''Post'')]"

definition post_record :: "int \<Rightarrow> content_record" where
  "post_record i = \<lparr>c_id = JInt i, c_title = JStr ''Post'', c_excerpt = JStr [], c_content = JStr [],
              c_url = JStr [], c_date = JStr [], c_author = JStr ''Unknown'',
              c_type = JStr ''post'', c_slug = JStr []\<rparr>"

text \<open>
  Three arguments strings and what \<^verbatim>\<open>json.loads\<close> makes of them: an object with a
  limit of its own, the empty object, and a string that is not JSON.
\<close>

definition five_args :: string where
  \<open>five_args = ''{"query": "posts", "maxResults": 5}''\<close>

definition sample_loads :: "string \<Rightarrow> string + json" where
  "sample_loads s =
     (if s = five_args then Inr (JObj [(''query'', JStr ''posts''), (''maxResults'', JInt 5)])
      else if s = ''{}'' then Inr (JObj [])
      else Inl ''Expecting value: line 1 column 1 (char 0)'')"

text \<open>
  An exchange scripted by the kind of request: the reply of each model, of the content
  listing and of the analysis request.
\<close>

definition scripted ::
  "(string \<Rightarrow> exn + json) \<Rightarrow> (exn + json) \<Rightarrow> (exn + json) \<Rightarrow> request list \<Rightarrow> request \<Rightarrow> exn + json" where
  "scripted chat content_reply analysis_reply hist req =
     (case req of
        ChatWithTools model q \<Rightarrow> chat model
      | ChatAnalysis model q formatted \<Rightarrow> analysis_reply
      | ContentList per_page \<Rightarrow> content_reply
      | _ \<Rightarrow> Inl (RequestException ''connection refused''))"

definition two_models :: engine where
  "two_models = \<lparr>current_model = ''primary'', fallback_models = [''backup'']\<rparr>"

text \<open>
  \<open>rs\<close> is what a call of \<^verbatim>\<open>search_content\<close> with the limit \<open>m\<close> returned; and \<open>rs\<close>
  was fetched for a retrieval tool call of the response, with the limit this call ends up
  with when \<open>n\<close> was requested.
\<close>

definition fetched_with :: "env \<Rightarrow> json \<Rightarrow> content_record list \<Rightarrow> bool" where
  "fetched_with env m rs = (\<exists>q w w'. search_content env q m w = (Inr rs, w'))"

definition fetched_for_response :: "env \<Rightarrow> int \<Rightarrow> json \<Rightarrow> content_record list \<Rightarrow> bool" where
  "fetched_for_response env n response rs =
     (\<exists>tool_call \<in> set (retrieval_calls response).
        \<exists>v. tool_call_limit env n tool_call = Inr v \<and> fetched_with env v rs)"

text \<open>
  The environment of the concrete runs: the replies are scripted, the arguments strings
  decode as \<open>sample_loads\<close> says. \<open>primary_then p b\<close> gives the reply \<open>p\<close> to the model
  \<open>primary\<close> and \<open>b\<close> to any other.
\<close>

definition sample_env :: "(string \<Rightarrow> exn + json) \<Rightarrow> (exn + json) \<Rightarrow> (exn + json) \<Rightarrow> env" where
  "sample_env chat content_reply analysis_reply =
     quiet_env\<lparr>http := scripted chat content_reply analysis_reply, json_loads := sample_loads\<rparr>"

definition primary_then :: "(exn + json) \<Rightarrow> (exn + json) \<Rightarrow> string \<Rightarrow> exn + json" where
  "primary_then p b model = (if model = ''primary'' then p else b)"

definition five_posts :: json where
  "five_posts = JArr [post 1, post 2, post 3, post 4, post 5]"

definition five_records :: "content_record list" where
  "five_records = [post_record 1, post_record 2, post_record 3, post_record 4, post_record 5]"

text \<open>
  Every model is unreachable and the content endpoint answers the listing with an object
  that wraps the list of posts.
\<close>

definition misshapen_env :: "env \<Rightarrow> env" where
  "misshapen_env env = env\<lparr>http :=
     scripted (\<lambda>model. Inl (RequestException ''connection refused''))
              (Inr (JObj [(''posts'', JArr [])]))
              (Inl (RequestException ''connection refused''))\<rparr>"

text \<open>
  The runs. Both models call the retrieval tool and ask for five results; the listing has
  five posts and the analysis succeeds.
\<close>

definition env_tool_five :: env where
  "env_tool_five =
     sample_env (\<lambda>model. Inr (tool_call_response model five_args)) (Inr five_posts)
       (Inr (text_response ''primary'' ''Five posts match.''))"


text \<open>
  The primary model cannot be reached; the fallback answers in text, and the gateway
  reports the model as \<open>reported\<close>.
\<close>

definition env_backup_text :: "string \<Rightarrow> env" where
  "env_backup_text reported =
     sample_env (primary_then (Inl (RequestException ''connection refused''))
                   (Inr (text_response reported ''No search needed.'')))
       (Inr five_posts) (Inr (text_response ''primary'' ''Five posts match.''))"

text \<open>
  The primary model calls the retrieval tool with the given arguments string, the fallback
  answers in text; the analysis request gets the given reply.
\<close>

definition env_primary_tool :: "string \<Rightarrow> (exn + json) \<Rightarrow> env" where
  "env_primary_tool arguments analysis_reply =
     sample_env (primary_then (Inr (tool_call_response ''primary'' arguments))
                   (Inr (text_response ''backup'' ''No search needed.'')))
       (Inr five_posts) analysis_reply"

text \<open>The primary model cannot be reached; the fallback calls the retrieval tool.\<close>

definition env_backup_tool :: env where
  "env_backup_tool =
     sample_env (primary_then (Inl (RequestException ''connection refused''))
                   (Inr (tool_call_response ''backup'' five_args)))
       (Inr five_posts) (Inr (text_response ''primary'' ''Five posts match.''))"

text \<open>Every model answers in text.\<close>

definition env_direct :: env where
  "env_direct =
     sample_env (\<lambda>model. Inr (text_response model ''No search needed.''))
       (Inr five_posts) (Inr (text_response ''primary'' ''Five posts match.''))"

text \<open>
  A content endpoint that honours \<open>per_page\<close> over seven posts, with models that call the
  retrieval tool and ask for five results.
\<close>

definition listing :: "json list \<Rightarrow> json \<Rightarrow> exn + json" where
  "listing posts per_page =
     (case per_page of
        JInt k \<Rightarrow> Inr (JArr (take (nat k) posts))
      | _ \<Rightarrow> Inl (RequestException ''400 Client Error: Bad Request''))"

definition env_paged :: env where
  "env_paged = quiet_env\<lparr>
     http := (\<lambda>hist req. case req of
                ChatWithTools model q \<Rightarrow> Inr (tool_call_response model five_args)
              | ChatAnalysis model q formatted \<Rightarrow> Inr (text_response ''primary'' ''Five posts match.'')
              | ContentList per_page \<Rightarrow>
                  listing [post 1, post 2, post 3, post 4, post 5, post 6, post 7] per_page
              | _ \<Rightarrow> Inl (RequestException ''connection refused'')),
     json_loads := sample_loads\<rparr>"

text \<open>
  A completion that answers in text and carries \<open>tool_calls\<close> as null; the primary model
  answers so, the fallback answers in plain text.
\<close>

definition null_tools_response :: "string \<Rightarrow> string \<Rightarrow> json" where
  "null_tools_response model text =
     JObj [(''model'', JStr model),
           (''choices'', JArr [JObj [(''message'',
              JObj [(''role'', JStr ''assistant''), (''content'', JStr text),
                    (''tool_calls'', JNull)])]])]"

definition env_null_tools :: env where
  "env_null_tools =
     sample_env (primary_then (Inr (null_tools_response ''primary'' ''No search needed.''))
                   (Inr (text_response ''backup'' ''Backup answer.'')))
       (Inr five_posts) (Inr (text_response ''primary'' ''Five posts match.''))"

section \<open>Content normalisation\<close>

text \<open>
  C8: formatting a raw record gives the same content record whatever the state of the
  client that formats it, so formatting it twice yields identical values; a raw record
  (a JSON object) always formats, whichever keys are absent; and when the author's name
  is missing, whatever the shape of the \<open>author\<close> field, the author is \<open>Unknown\<close>.
\<close>

theorem format_content_item_deterministic_total:
  "format_content_item self1 (JObj item) = format_content_item self2 (JObj item)
   \<and> (\<exists>r. format_content_item self1 (JObj item) = Inr r)
   \<and> (author_name_missing item \<longrightarrow>
        (\<exists>r. format_content_item self1 (JObj item) = Inr r \<and> c_author r = JStr ''Unknown''))"
  by (auto simp: author_name_missing_def dict_get_def Let_def split: option.splits json.splits)

theorem format_content_item_witness:
  "author_name_missing [(''title'', JStr ''Post''), (''author'', JArr [])]
   \<and> format_content_item new_client (JObj [(''title'', JStr ''Post''), (''author'', JArr [])])
       = Inr \<lparr>c_id = JNull, c_title = JStr ''Post'', c_excerpt = JStr [], c_content = JStr [],
              c_url = JStr [], c_date = JStr [], c_author = JStr ''Unknown'',
              c_type = JStr ''post'', c_slug = JStr []\<rparr>"
  using format_content_item_deterministic_total
          [of new_client "[(''title'', JStr ''Post''), (''author'', JArr [])]" new_client]
  by (simp add: author_name_missing_def dict_get_def)

section \<open>Lookup by identifier\<close>

text \<open>
  C7: \<^verbatim>\<open>get_content_by_id\<close> is claimed to return the absent record on any failure.
  When the endpoint answers with a body that decodes to a JSON list, the call raises
  \<open>AttributeError\<close> instead: its only \<^verbatim>\<open>except\<close> clause is for \<open>RequestException\<close>.
\<close>

theorem get_content_by_id_raises:
  "fst (get_content_by_id (env\<lparr>http := (\<lambda>hist req. Inr (JArr []))\<rparr>) content_id w)
     = Inl AttributeError"
  by (simp add: get_content_by_id_def exchange_def Let_def split: prod.splits)

section \<open>Rate limiting\<close>

lemma rate_limit_clock:
  assumes "\<forall>k. 0 \<le> delay env k"
  shows "clock w \<le> clock (rate_limit env w)"
    and "last_request_time (client w) + min_request_interval (client w) \<le> clock (rate_limit env w)"
    and "last_request_time (client (rate_limit env w)) = clock (rate_limit env w)"
    and "min_request_interval (client (rate_limit env w)) = min_request_interval (client w)"
proof -
  have d0: "0 \<le> delay env (ticks w)" and d1: "0 \<le> delay env (Suc (ticks w))"
    and d2: "0 \<le> delay env (Suc (Suc (ticks w)))"
    using assms by blast+
  show "clock w \<le> clock (rate_limit env w)"
    using d0 d1 d2 by (simp add: rate_limit_def time_time_def time_sleep_def Let_def)
  show "last_request_time (client w) + min_request_interval (client w) \<le> clock (rate_limit env w)"
    using d0 d1 d2 by (simp add: rate_limit_def time_time_def time_sleep_def Let_def)
  show "last_request_time (client (rate_limit env w)) = clock (rate_limit env w)"
    by (simp add: rate_limit_def time_time_def time_sleep_def Let_def)
  show "min_request_interval (client (rate_limit env w)) = min_request_interval (client w)"
    by (simp add: rate_limit_def time_time_def time_sleep_def Let_def)
qed

lemma rate_limit_sent: "sent (rate_limit env w) = sent w"
  by (simp add: rate_limit_def time_time_def time_sleep_def Let_def)

lemma search_content_time:
  "clock (snd (search_content env q m w)) = clock (rate_limit env w)
   \<and> client (snd (search_content env q m w)) = client (rate_limit env w)"
  by (auto simp: search_content_def search_content_try_def exchange_def Let_def
           split: prod.splits sum.splits)

lemma get_content_by_id_time:
  "clock (snd (get_content_by_id env i w)) = clock (rate_limit env w)
   \<and> client (snd (get_content_by_id env i w)) = client (rate_limit env w)"
  by (auto simp: get_content_by_id_def exchange_def Let_def split: prod.splits sum.splits)

lemma test_connection_time:
  "clock (snd (test_connection env w)) = clock (rate_limit env w)
   \<and> client (snd (test_connection env w)) = client (rate_limit env w)"
  by (auto simp: test_connection_def exchange_def Let_def split: prod.splits sum.splits)

lemma run_call_time:
  "clock (run_call env c w) = clock (rate_limit env w)
   \<and> client (run_call env c w) = client (rate_limit env w)"
  by (cases c) (simp_all add: search_content_time get_content_by_id_time test_connection_time)

lemma run_call_stamped:
  assumes "\<forall>k. 0 \<le> delay env k" and "min_request_interval (client w) = 1 / 10"
  shows "stamped (run_call env c w)" and "clock w \<le> clock (run_call env c w)"
    and "last_request_time (client w) + 1 / 10 \<le> clock (run_call env c w)"
  using rate_limit_clock [OF assms(1), of w] assms(2)
  by (simp_all add: stamped_def run_call_time)

lemma run_calls_stamped:
  assumes "\<forall>k. 0 \<le> delay env k"
  shows "stamped w \<Longrightarrow> clock w + real (length cs) / 10 \<le> clock (run_calls env cs w)"
proof (induction cs arbitrary: w)
  case Nil
  then show ?case by simp
next
  case (Cons c cs)
  have mi: "min_request_interval (client w) = 1 / 10"
    using Cons.prems by (simp add: stamped_def)
  have st: "stamped (run_call env c w)"
    by (rule run_call_stamped(1) [OF assms mi])
  have step: "clock w + 1 / 10 \<le> clock (run_call env c w)"
    using run_call_stamped(3) [OF assms mi, of c] Cons.prems by (simp add: stamped_def)
  have "clock (run_call env c w) + real (length cs) / 10 \<le> clock (run_calls env cs (run_call env c w))"
    by (rule Cons.IH [OF st])
  with step show ?case by (simp add: field_simps)
qed

text \<open>
  C9: the clock is a real number of seconds that never runs backwards (every \<open>delay\<close> is
  non-negative) and \<^verbatim>\<open>time.sleep(d)\<close> lets at least \<open>d\<close> pass. Then every call of
  \<^verbatim>\<open>_rate_limit\<close> records a timestamp at least 100 ms after the one recorded before,
  and a sequence of \<open>N > 0\<close> content client calls, whichever they are, takes at least
  \<open>(N - 1) * 100 ms\<close> on that clock.
\<close>

theorem rate_limit_spacing:
  assumes "\<forall>k. 0 \<le> delay env k" and "min_request_interval (client w) = 1 / 10"
  shows "last_request_time (client w) + 1 / 10 \<le> last_request_time (client (rate_limit env w))
         \<and> (calls \<noteq> [] \<longrightarrow>
              (real (length calls) - 1) / 10 \<le> clock (run_calls env calls w) - clock w)"
proof
  show "last_request_time (client w) + 1 / 10 \<le> last_request_time (client (rate_limit env w))"
    using rate_limit_clock(2,3) [OF assms(1), of w] assms(2) by simp
  show "calls \<noteq> [] \<longrightarrow> (real (length calls) - 1) / 10 \<le> clock (run_calls env calls w) - clock w"
  proof
    assume "calls \<noteq> []"
    then obtain c cs where cs: "calls = c # cs" by (cases calls) auto
    have st: "stamped (run_call env c w)"
      by (rule run_call_stamped(1) [OF assms])
    have "clock w \<le> clock (run_call env c w)"
      by (rule run_call_stamped(2) [OF assms])
    moreover have "clock (run_call env c w) + real (length cs) / 10
                     \<le> clock (run_calls env cs (run_call env c w))"
      by (rule run_calls_stamped [OF assms(1) st])
    ultimately show "(real (length calls) - 1) / 10 \<le> clock (run_calls env calls w) - clock w"
      by (simp add: cs field_simps)
  qed
qed

theorem rate_limit_spacing_witness:
  "(\<forall>k. 0 \<le> delay quiet_env k) \<and> min_request_interval (client world0) = 1 / 10
   \<and> [TestConnection, GetContentById 7, TestConnection] \<noteq> []
   \<and> last_request_time (client world0) + 1 / 10 \<le> last_request_time (client (rate_limit quiet_env world0))
   \<and> 2 / 10 \<le> clock (run_calls quiet_env [TestConnection, GetContentById 7, TestConnection] world0) - clock world0"
  using rate_limit_spacing [of quiet_env world0 "[TestConnection, GetContentById 7, TestConnection]"]
  by (simp add: quiet_env_def world0_def new_client_def)

lemma run_calls_example:
  "clock (run_calls quiet_env [TestConnection, GetContentById 7, TestConnection] world0) = 1000 + 2 / 10"
  by (simp add: quiet_env_def world0_def new_client_def test_connection_def get_content_by_id_def
        rate_limit_def time_time_def time_sleep_def exchange_def Let_def)

section \<open>The requests a search sends\<close>

lemma extends_by_iff:
  "extends_by P w w' \<longleftrightarrow> (\<exists>xs. sent w' = sent w @ xs \<and> list_all P xs)"
proof
  assume "extends_by P w w'"
  then have "sent w' = sent w @ drop (length (sent w)) (sent w')"
    and "list_all P (drop (length (sent w)) (sent w'))"
    unfolding extends_by_def by (metis append_take_drop_id, simp)
  then show "\<exists>xs. sent w' = sent w @ xs \<and> list_all P xs" by blast
next
  assume "\<exists>xs. sent w' = sent w @ xs \<and> list_all P xs"
  then show "extends_by P w w'" unfolding extends_by_def by auto
qed

lemma extends_by_same: "sent w' = sent w \<Longrightarrow> extends_by P w w'"
  by (simp add: extends_by_def)

lemma extends_by_trans:
  "extends_by P w w1 \<Longrightarrow> extends_by P w1 w2 \<Longrightarrow> extends_by P w w2"
  unfolding extends_by_iff by auto

lemma extends_by_mono:
  "(\<And>r. P r \<Longrightarrow> Q r) \<Longrightarrow> extends_by P w w' \<Longrightarrow> extends_by Q w w'"
  unfolding extends_by_iff by (auto simp: list_all_iff)

lemma exchange_extends:
  "P req \<Longrightarrow> exchange env req w = (r, w') \<Longrightarrow> extends_by P w w'"
  by (auto simp: exchange_def extends_by_def)

lemma search_content_extends:
  assumes "search_content env q m w = (r, w')"
  shows "extends_by (inner_request eng) w w'"
proof -
  have "sent w' = sent w \<or> (\<exists>pp. sent w' = sent w @ [ContentList pp])"
    using assms
    by (auto simp: search_content_def search_content_try_def exchange_def Let_def rate_limit_sent
             split: prod.splits sum.splits)
  then show ?thesis by (auto simp: extends_by_def)
qed

lemma get_ai_analysis_extends:
  assumes "get_ai_analysis eng env uq f w = (r, w')"
  shows "extends_by (inner_request eng) w w'"
proof -
  have "sent w' = sent w @ [ChatAnalysis (current_model eng) uq f]"
    using assms
    by (auto simp: get_ai_analysis_def exchange_def split: prod.splits sum.splits if_splits)
  then show ?thesis by (auto simp: extends_by_def)
qed

lemma retrieve_and_analyse_extends:
  assumes "retrieve_and_analyse eng env resp uq sq sm w = (r, w')"
  shows "extends_by (inner_request eng) w w'"
  using assms unfolding retrieve_and_analyse_def
  by (auto split: prod.splits sum.splits
           intro: extends_by_trans search_content_extends get_ai_analysis_extends)

lemma run_search_tool_extends:
  assumes "run_search_tool eng env resp uq n tc w = (r, w')"
  shows "extends_by (inner_request eng) w w'"
  using assms unfolding run_search_tool_def
  by (auto split: prod.splits sum.splits
           intro: retrieve_and_analyse_extends extends_by_same)

lemma tool_loop_extends:
  "tool_loop eng env resp uq n tcs w = (r, w') \<Longrightarrow> extends_by (inner_request eng) w w'"
proof (induction tcs)
  case Nil
  then show ?case by (auto intro: extends_by_same)
next
  case (Cons tc tcs)
  then show ?case
    by (auto split: prod.splits sum.splits if_splits
             intro: run_search_tool_extends extends_by_same)
qed

lemma process_ai_response_try_extends:
  assumes "process_ai_response_try eng env resp uq n w = (r, w')"
  shows "extends_by (inner_request eng) w w'"
  using assms unfolding process_ai_response_try_def
  by (auto split: prod.splits sum.splits if_splits option.splits
           intro: tool_loop_extends extends_by_same)

lemma process_ai_response_extends:
  assumes "process_ai_response eng env resp uq n w = (r, w')"
  shows "extends_by (inner_request eng) w w'"
  using assms unfolding process_ai_response_def
  by (auto split: prod.splits sum.splits intro: process_ai_response_try_extends)

lemma models_asked_append: "models_asked (xs @ ys) = models_asked xs @ models_asked ys"
  by (induction xs rule: models_asked.induct) simp_all

lemma models_asked_inner: "list_all (inner_request eng) xs \<Longrightarrow> models_asked xs = []"
  by (induction xs rule: models_asked.induct) simp_all

lemma inner_analysis_to: "inner_request eng r \<Longrightarrow> analysis_to (current_model eng) r"
  by (cases r) simp_all

lemma list_all_inner_analysis_to:
  "list_all (inner_request eng) xs \<Longrightarrow> list_all (analysis_to (current_model eng)) xs"
  by (auto simp: list_all_iff inner_analysis_to)

lemma search_with_model_sent:
  assumes "search_with_model eng env q n m w = (r, w')"
  shows "\<exists>xs. sent w' = sent w @ ChatWithTools m q # xs \<and> list_all (inner_request eng) xs"
proof (cases "http env (sent w) (ChatWithTools m q)")
  case (Inl e)
  then have "sent w' = sent w @ [ChatWithTools m q]"
    using assms by (auto simp: search_with_model_def exchange_def)
  then show ?thesis by simp
next
  case (Inr resp)
  define w1 where "w1 = w\<lparr>sent := sent w @ [ChatWithTools m q]\<rparr>"
  obtain r' where p: "process_ai_response eng env resp q n w1 = (r', w')"
    using assms Inr
    by (auto simp: search_with_model_def exchange_def w1_def split: prod.splits sum.splits)
  from process_ai_response_extends [OF p]
  obtain xs where "sent w' = sent w1 @ xs" and "list_all (inner_request eng) xs"
    unfolding extends_by_iff by blast
  then show ?thesis by (simp add: w1_def)
qed

lemma fallback_search_extends:
  assumes "fallback_search eng env q n w = (r, w')"
  shows "extends_by (inner_request eng) w w'"
proof -
  obtain r0 where "search_content env (JStr q) (JInt n) w = (r0, w')"
    using assms unfolding fallback_search_def
    by (auto split: prod.splits sum.splits exn.splits)
  then show ?thesis by (rule search_content_extends)
qed

lemma try_models_sent:
  "try_models eng env q n ms w = (r, w') \<Longrightarrow>
     \<exists>xs k. sent w' = sent w @ xs \<and> k \<le> length ms \<and> models_asked xs = take k ms
           \<and> (r = None \<longrightarrow> k = length ms)
           \<and> list_all (analysis_to (current_model eng)) xs"
proof (induction ms arbitrary: w)
  case Nil
  then show ?case by simp
next
  case (Cons m ms)
  obtain r1 w1 where s: "search_with_model eng env q n m w = (r1, w1)"
    by (cases "search_with_model eng env q n m w")
  from search_with_model_sent [OF s]
  obtain xs where xs: "sent w1 = sent w @ ChatWithTools m q # xs" "list_all (inner_request eng) xs"
    by blast
  have a1: "models_asked (ChatWithTools m q # xs) = [m]"
    using xs(2) by (simp add: models_asked_inner)
  have a2: "list_all (analysis_to (current_model eng)) (ChatWithTools m q # xs)"
    using xs(2) by (simp add: list_all_inner_analysis_to)
  show ?case
  proof (cases r1)
    case (Inr res)
    then have "r = Some res" "w' = w1" using Cons.prems s by simp_all
    then show ?thesis using xs(1) a1 a2
      by (intro exI [of _ "ChatWithTools m q # xs"] exI [of _ 1]) simp
  next
    case (Inl e)
    then have "try_models eng env q n ms w1 = (r, w')" using Cons.prems s by simp
    from Cons.IH [OF this]
    obtain ys k where ys: "sent w' = sent w1 @ ys" "k \<le> length ms" "models_asked ys = take k ms"
      "r = None \<longrightarrow> k = length ms" "list_all (analysis_to (current_model eng)) ys"
      by blast
    have a3: "models_asked ((ChatWithTools m q # xs) @ ys) = m # take k ms"
      unfolding models_asked_append a1 ys(3) by simp
    have a4: "list_all (analysis_to (current_model eng)) ((ChatWithTools m q # xs) @ ys)"
      using a2 ys(5) by simp
    have a5: "sent w' = sent w @ (ChatWithTools m q # xs) @ ys"
      using xs(1) ys(1) by simp
    show ?thesis
      using a3 a4 a5 ys(2) ys(4)
      by (intro exI [of _ "(ChatWithTools m q # xs) @ ys"] exI [of _ "Suc k"])
         (simp del: models_asked.simps append_Cons)
  qed
qed

lemma search_sent:
  assumes "search eng env q mr w = (r, w')"
  shows "\<exists>xs k. sent w' = sent w @ xs \<and> k \<le> Suc (length (fallback_models eng))
           \<and> models_asked xs = take k (current_model eng # fallback_models eng)
           \<and> list_all (analysis_to (current_model eng)) xs"
proof -
  define n where "n = (case mr of None \<Rightarrow> config_max_results env | Some n \<Rightarrow> n)"
  obtain r1 w1 where t: "try_models eng env q n (current_model eng # fallback_models eng) w = (r1, w1)"
    by (cases "try_models eng env q n (current_model eng # fallback_models eng) w")
  from try_models_sent [OF t]
  obtain xs k where xs: "sent w1 = sent w @ xs" "k \<le> length (current_model eng # fallback_models eng)"
    "models_asked xs = take k (current_model eng # fallback_models eng)"
    "list_all (analysis_to (current_model eng)) xs"
    by blast
  show ?thesis
  proof (cases r1)
    case (Some res)
    then have "w' = w1" using assms t by (simp add: search_def n_def)
    then show ?thesis using xs by auto
  next
    case None
    then have "fallback_search eng env q n w1 = (r, w')"
      using assms t by (simp add: search_def n_def)
    from fallback_search_extends [OF this]
    obtain ys where ys: "sent w' = sent w1 @ ys" "list_all (inner_request eng) ys"
      unfolding extends_by_iff by blast
    show ?thesis
      using xs ys
      by (intro exI [of _ "xs @ ys"] exI [of _ k])
         (simp add: models_asked_append models_asked_inner list_all_inner_analysis_to)
  qed
qed

section \<open>Where the records of a result come from\<close>










lemma retrieve_and_analyse_origin:
  assumes "retrieve_and_analyse eng env resp q sq sm w = (Inr r, w')"
  shows "fetched_with env sm (results r)" and "getitem resp ''model'' = Inr (model_used r)"
    and "query r = q" and "total_results r = length (results r)"
proof -
  obtain rs w1 fr a w2 m where sc: "search_content env sq sm w = (Inr rs, w1)"
    and "format_results_for_ai env rs = Inr fr"
    and "get_ai_analysis eng env q fr w1 = (Inr a, w2)"
    and m: "getitem resp ''model'' = Inr m"
    and r: "r = \<lparr>query = q, results = rs, analysis = a, model_used = m, total_results = length rs\<rparr>"
    using assms unfolding retrieve_and_analyse_def
    by (auto simp: bind_exn_def split: prod.splits sum.splits)
  show "fetched_with env sm (results r)"
    unfolding fetched_with_def using sc r by auto
  show "getitem resp ''model'' = Inr (model_used r)" "query r = q"
    "total_results r = length (results r)"
    using m r by simp_all
qed

lemma run_search_tool_origin:
  assumes "run_search_tool eng env resp q n tc w = (Inr r, w')"
  shows "\<exists>v. tool_call_limit env n tc = Inr v \<and> fetched_with env v (results r)"
    and "getitem resp ''model'' = Inr (model_used r)"
    and "query r = q" and "total_results r = length (results r)"
proof -
  obtain f a args sq sm where f: "getitem tc ''function'' = Inr f"
    and a: "getitem f ''arguments'' = Inr a" and args: "loads env a = Inr args"
    and sq: "py_get args ''query'' (JStr q) = Inr sq"
    and sm: "py_get args ''maxResults'' (JInt n) = Inr sm"
    and ra: "retrieve_and_analyse eng env resp q sq sm w = (Inr r, w')"
    using assms unfolding run_search_tool_def
    by (auto simp: bind_exn_def split: sum.splits prod.splits)
  have "tool_call_limit env n tc = Inr sm"
    using f a args sm by (simp add: tool_call_limit_def bind_exn_def)
  then show "\<exists>v. tool_call_limit env n tc = Inr v \<and> fetched_with env v (results r)"
    using retrieve_and_analyse_origin(1) [OF ra] by blast
  show "getitem resp ''model'' = Inr (model_used r)" "query r = q" "total_results r = length (results r)"
    using retrieve_and_analyse_origin(2,3,4) [OF ra] by simp_all
qed

lemma tool_loop_origin:
  "tool_loop eng env resp q n tcs w = (Inr (Some r), w') \<Longrightarrow>
     (\<exists>tc \<in> set tcs. tool_name tc = Inr (JStr ''search_wordpress'')
        \<and> (\<exists>v. tool_call_limit env n tc = Inr v \<and> fetched_with env v (results r)))
     \<and> getitem resp ''model'' = Inr (model_used r)
     \<and> query r = q \<and> total_results r = length (results r)"
proof (induction tcs)
  case Nil
  then show ?case by simp
next
  case (Cons tc tcs)
  show ?case
  proof (cases "tool_name tc = Inr (JStr ''search_wordpress'')")
    case True
    then have "run_search_tool eng env resp q n tc w = (Inr r, w')"
      using Cons.prems by (auto split: sum.splits prod.splits)
    from run_search_tool_origin [OF this] True show ?thesis by auto
  next
    case False
    then have "tool_loop eng env resp q n tcs w = (Inr (Some r), w')"
      using Cons.prems by (auto split: sum.splits prod.splits if_splits)
    from Cons.IH [OF this] show ?thesis by auto
  qed
qed

lemma direct_response_origin:
  assumes "direct_response resp q message = Inr r"
  shows "results r = [] \<and> getitem resp ''model'' = Inr (model_used r)
         \<and> query r = q \<and> total_results r = length (results r)"
  using assms unfolding direct_response_def
  by (auto simp: bind_exn_def split: sum.splits)

lemma process_ai_response_try_origin:
  assumes "process_ai_response_try eng env resp q n w = (Inr r, w')"
  shows "getitem resp ''model'' = Inr (model_used r) \<and> query r = q
         \<and> total_results r = length (results r)
         \<and> (results r = [] \<or> fetched_for_response env n resp (results r))"
proof -
  obtain message has where m: "response_message resp = Inr message"
    and h: "contains ''tool_calls'' message = Inr has"
    using assms unfolding process_ai_response_try_def
    by (auto simp: bind_exn_def split: sum.splits prod.splits)
  show ?thesis
  proof (cases "\<exists>tcs. has \<and> bind_exn (getitem message ''tool_calls'') iterate = Inr tcs
                   \<and> tool_loop eng env resp q n tcs w = (Inr (Some r), w')")
    case True
    then obtain tcs where tcs: "bind_exn (getitem message ''tool_calls'') iterate = Inr tcs"
      and tl: "tool_loop eng env resp q n tcs w = (Inr (Some r), w')" by blast
    from tool_loop_origin [OF tl]
    obtain tc v where tc: "tc \<in> set tcs" "tool_name tc = Inr (JStr ''search_wordpress'')"
      "tool_call_limit env n tc = Inr v" "fetched_with env v (results r)"
      and rest: "getitem resp ''model'' = Inr (model_used r)" "query r = q"
        "total_results r = length (results r)"
      by blast
    have "tc \<in> set (retrieval_calls resp)"
      using m tcs tc(1,2) by (simp add: retrieval_calls_def bind_exn_def)
    then have "fetched_for_response env n resp (results r)"
      unfolding fetched_for_response_def using tc(3,4) by blast
    with rest show ?thesis by simp
  next
    case False
    then have "direct_response resp q message = Inr r"
      using assms m h unfolding process_ai_response_try_def
      by (auto simp: bind_exn_def split: sum.splits prod.splits if_splits option.splits)
    from direct_response_origin [OF this] show ?thesis by simp
  qed
qed

lemma process_ai_response_origin:
  assumes "process_ai_response eng env resp q n w = (Inr r, w')"
  shows "getitem resp ''model'' = Inr (model_used r) \<and> query r = q
         \<and> total_results r = length (results r)
         \<and> (results r = [] \<or> fetched_for_response env n resp (results r))"
  using assms unfolding process_ai_response_def
  by (auto split: sum.splits prod.splits dest: process_ai_response_try_origin)

lemma search_with_model_origin:
  assumes "search_with_model eng env q n m w = (Inr r, w')"
  shows "\<exists>resp. http env (sent w) (ChatWithTools m q) = Inr resp
           \<and> getitem resp ''model'' = Inr (model_used r)"
    and "query r = q" and "total_results r = length (results r)"
    and "\<exists>resp. http env (sent w) (ChatWithTools m q) = Inr resp
           \<and> (results r = [] \<or> fetched_for_response env n resp (results r))"
proof -
  obtain resp w1 where h: "http env (sent w) (ChatWithTools m q) = Inr resp"
    and p: "process_ai_response eng env resp q n w1 = (Inr r, w')"
    using assms unfolding search_with_model_def exchange_def
    by (auto split: sum.splits prod.splits)
  from process_ai_response_origin [OF p] h
  show "\<exists>resp. http env (sent w) (ChatWithTools m q) = Inr resp
           \<and> getitem resp ''model'' = Inr (model_used r)"
    and "query r = q" and "total_results r = length (results r)"
    and "\<exists>resp. http env (sent w) (ChatWithTools m q) = Inr resp
           \<and> (results r = [] \<or> fetched_for_response env n resp (results r))"
    by auto
qed




section \<open>Responses of the expected shape\<close>

lemma tool_loop_skip:
  "list_all other_tool pre \<Longrightarrow>
     tool_loop eng env resp q n (pre @ tcs) w = tool_loop eng env resp q n tcs w"
  by (induction pre) (auto simp: other_tool_def split: sum.splits)

lemma tool_loop_none:
  "list_all other_tool tcs \<Longrightarrow> tool_loop eng env resp q n tcs w = (Inr None, w)"
  using tool_loop_skip [of tcs eng env resp q n "[]" w] by simp

lemma tool_loop_hit:
  assumes "tool_name tc = Inr (JStr ''search_wordpress'')"
  shows "tool_loop eng env resp q n (tc # rest) w =
           (case run_search_tool eng env resp q n tc w of
              (Inl e, w') \<Rightarrow> (Inl e, w')
            | (Inr r, w') \<Rightarrow> (Inr (Some r), w'))"
  using assms by simp

lemma process_try_tool:
  assumes "response_message resp = Inr (JObj msg)"
    and "map_of msg ''tool_calls'' = Some (JArr (pre @ tc # rest))"
    and "list_all other_tool pre"
    and "tool_name tc = Inr (JStr ''search_wordpress'')"
  shows "process_ai_response_try eng env resp q n w = run_search_tool eng env resp q n tc w"
proof -
  have "tool_loop eng env resp q n (pre @ tc # rest) w =
          (case run_search_tool eng env resp q n tc w of
              (Inl e, w') \<Rightarrow> (Inl e, w')
            | (Inr r, w') \<Rightarrow> (Inr (Some r), w'))"
    using tool_loop_skip [OF assms(3)] tool_loop_hit [OF assms(4)] by simp
  then show ?thesis
    using assms(1,2)
    by (simp add: process_ai_response_try_def bind_exn_def split: prod.splits sum.splits)
qed

lemma process_try_direct:
  assumes "response_message resp = Inr (JObj msg)"
    and "map_of msg ''tool_calls'' = None
         \<or> (\<exists>tcs. map_of msg ''tool_calls'' = Some (JArr tcs) \<and> list_all other_tool tcs)"
  shows "process_ai_response_try eng env resp q n w = (direct_response resp q (JObj msg), w)"
  using assms
  by (auto simp: process_ai_response_try_def bind_exn_def tool_loop_none)

lemma search_with_model_body:
  assumes "http env (sent w) (ChatWithTools model q) = Inr resp"
  shows "search_with_model eng env q n model w =
           (case process_ai_response_try eng env resp q n (w\<lparr>sent := sent w @ [ChatWithTools model q]\<rparr>) of
              (Inl e, w2) \<Rightarrow> (Inl (search_with_model_except (process_ai_response_except e)), w2)
            | (Inr r, w2) \<Rightarrow> (Inr r, w2))"
  using assms
  by (simp add: search_with_model_def exchange_def process_ai_response_def split: prod.splits sum.splits)

section \<open>The cascade and the fallback\<close>

lemma search_content_never_request_exception:
  assumes "search_content env q m w = (Inl e, w')"
  shows "\<not> is_RequestException e"
proof -
  obtain e0 where "e = search_content_except e0"
    using assms by (auto simp: search_content_def Let_def split: prod.splits sum.splits)
  then show ?thesis
    by (cases e0) (simp_all add: search_content_except_def)
qed

lemma fallback_search_raises:
  assumes "fallback_search eng env q n w = (Inl e, w')"
  shows "search_content env (JStr q) (JInt n) w = (Inl e, w')" and "\<not> is_RequestException e"
    and "\<forall>m. e \<noteq> WordPressAPIError m"
proof -
  show sc: "search_content env (JStr q) (JInt n) w = (Inl e, w')"
    using assms unfolding fallback_search_def
    by (auto split: prod.splits sum.splits exn.splits)
  show "\<not> is_RequestException e"
    by (rule search_content_never_request_exception [OF sc])
  show "\<forall>m. e \<noteq> WordPressAPIError m"
    using assms sc unfolding fallback_search_def by auto
qed

lemma search_raises_from_fallback:
  assumes "search eng env q mr w = (Inl e, w')"
  shows "\<exists>n w0. fallback_search eng env q n w0 = (Inl e, w')"
proof -
  define n where "n = (case mr of None \<Rightarrow> config_max_results env | Some n \<Rightarrow> n)"
  obtain r1 w1 where t: "try_models eng env q n (current_model eng # fallback_models eng) w = (r1, w1)"
    by (cases "try_models eng env q n (current_model eng # fallback_models eng) w")
  have "r1 = None" "fallback_search eng env q n w1 = (Inl e, w')"
    using assms t by (cases r1; simp add: search_def n_def)+
  then show ?thesis by blast
qed

lemma try_models_all_fail:
  assumes "\<And>hist model. http env hist (ChatWithTools model q) = Inl (RequestException msg)"
  shows "\<exists>w'. try_models eng env q n ms w = (None, w')"
proof (induction ms arbitrary: w)
  case Nil
  then show ?case by simp
next
  case (Cons m ms)
  have "search_with_model eng env q n m w
          = (Inl (search_with_model_except (RequestException msg)), w\<lparr>sent := sent w @ [ChatWithTools m q]\<rparr>)"
    using assms by (simp add: search_with_model_def exchange_def)
  then show ?case using Cons.IH by simp
qed

section \<open>Concrete runs\<close>

lemmas run_simps = search_def search_with_model_def process_ai_response_def
  process_ai_response_try_def response_message_def tool_name_def run_search_tool_def
  retrieve_and_analyse_def get_ai_analysis_def format_results_for_ai_def format_result_def
  search_content_def search_content_try_def filter_content_by_query_def fallback_search_def
  direct_response_def search_with_model_except_def search_content_except_def
  rate_limit_def time_time_def time_sleep_def exchange_def bind_exn_def dict_get_def slice_to_def
  scripted_def sample_loads_def sample_env_def primary_then_def tool_call_response_def
  text_response_def post_def post_record_def five_posts_def five_records_def
  quiet_env_def world0_def new_client_def two_models_def five_args_def key_repr_def Let_def
  env_tool_five_def env_backup_text_def env_primary_tool_def env_backup_tool_def env_direct_def
  env_paged_def listing_def null_tools_response_def env_null_tools_def

lemma pair_from_fst: "fst x = a \<Longrightarrow> x = (a, snd x)"
  by (cases x) simp


section \<open>The number of records returned\<close>






section \<open>Total failure\<close>

text \<open>
  What the fallback path does when the content fetch returns or raises a
  \<open>WordPressAPIError\<close>: the records as fetched under the model \<open>fallback\<close>, or no
  records under the model \<open>error\<close> with the error's text in the analysis.
\<close>

lemma all_models_fail_fallback:
  assumes "try_models eng env q n (current_model eng # fallback_models eng) w = (None, w1)"
    and "search_content env (JStr q) (JInt n) w1 = (Inr rs, w2)"
  shows "search eng env q (Some n) w =
           (Inr \<lparr>query = q, results = rs,
                  analysis = JStr (''Found '' @ str_of_nat (length rs)
                     @ '' results for your query. (Fallback search - AI analysis unavailable)''),
                  model_used = JStr ''fallback'', total_results = length rs\<rparr>, w2)"
  using assms by (simp add: search_def fallback_search_def)

lemma all_models_fail_fetch_fails:
  assumes "try_models eng env q n (current_model eng # fallback_models eng) w = (None, w1)"
    and "search_content env (JStr q) (JInt n) w1 = (Inl (WordPressAPIError msg), w2)"
  shows "search eng env q (Some n) w =
           (Inr \<lparr>query = q, results = [], analysis = JStr (''Search failed: '' @ msg),
                  model_used = JStr ''error'', total_results = 0\<rparr>, w2)"
  using assms by (simp add: search_def fallback_search_def)

text \<open>
  C2: \<^verbatim>\<open>search\<close> is claimed never to raise. When no model can be reached and the content
  endpoint answers the listing with a JSON object that wraps the posts, normalising the
  object's key raises \<open>AttributeError\<close>; \<^verbatim>\<open>search_content\<close> turns only request and value
  errors into \<open>WordPressAPIError\<close>, \<^verbatim>\<open>_fallback_search\<close> catches only that, and the
  exception leaves \<^verbatim>\<open>search\<close>, for every engine, query, limit and state.
\<close>

theorem search_raises_on_misshapen_listing:
  "fst (search eng (misshapen_env env) q mr w) = Inl AttributeError"
proof -
  define n where "n = (case mr of None \<Rightarrow> config_max_results (misshapen_env env) | Some n \<Rightarrow> n)"
  have h: "http (misshapen_env env) hist (ChatWithTools model q)
             = Inl (RequestException ''connection refused'')" for hist model
    by (simp add: misshapen_env_def scripted_def)
  obtain w1 where t: "try_models eng (misshapen_env env) q n (current_model eng # fallback_models eng) w = (None, w1)"
    using try_models_all_fail [of "misshapen_env env" q "''connection refused''" eng n, OF h]
    by blast
  have "fst (fallback_search eng (misshapen_env env) q n w1) = Inl AttributeError"
    by (simp add: fallback_search_def search_content_def search_content_try_def exchange_def
          misshapen_env_def scripted_def filter_content_by_query_def bind_exn_def
          search_content_except_def Let_def split: prod.splits)
  then show ?thesis using t by (simp add: search_def n_def)
qed

section \<open>The cascade\<close>

text \<open>
  C3, as amended. When the attempt with the primary model raises and the attempt with the
  first fallback returns, \<^verbatim>\<open>search\<close> returns that result in the state the fallback's
  attempt left, so no later model is asked; the tool-calling requests sent are those to
  the primary and to the fallback, in this order; and \<open>model_used\<close> is the \<open>model\<close> field
  of the fallback's response, which is the fallback's identifier only when the gateway
  reports it so. In every search the models asked are an initial segment of
  \<open>[primary] + fallbacks\<close>, in order, and an exception that leaves \<^verbatim>\<open>search\<close> was raised
  by the fallback path's content fetch and is not a request error. At every position of
  the cascade, an attempt that raises hands over to the rest of the cascade, and an
  attempt that returns ends it.
\<close>

theorem cascade_order:
  assumes "search_with_model eng env q n (current_model eng) w = (Inl e, w1)"
    and "fallback_models eng = m # ms"
    and "search_with_model eng env q n m w1 = (Inr r, w2)"
  shows "search eng env q (Some n) w = (Inr r, w2)
         \<and> (\<exists>resp. http env (sent w1) (ChatWithTools m q) = Inr resp
                \<and> getitem resp ''model'' = Inr (model_used r))
         \<and> models_asked (drop (length (sent w)) (sent w2)) = [current_model eng, m]
         \<and> (\<forall>mr res w'. search eng env q mr w = (res, w') \<longrightarrow>
              (\<exists>k. k \<le> Suc (length (fallback_models eng))
                 \<and> models_asked (drop (length (sent w)) (sent w'))
                     = take k (current_model eng # fallback_models eng)))
         \<and> (\<forall>mr e' w'. search eng env q mr w = (Inl e', w') \<longrightarrow>
              \<not> is_RequestException e' \<and> (\<exists>n' w0. fallback_search eng env q n' w0 = (Inl e', w')))
         \<and> (\<forall>m' ms' w0 e0 w0'. search_with_model eng env q n m' w0 = (Inl e0, w0') \<longrightarrow>
              try_models eng env q n (m' # ms') w0 = try_models eng env q n ms' w0')
         \<and> (\<forall>m' ms' w0 r0 w0'. search_with_model eng env q n m' w0 = (Inr r0, w0') \<longrightarrow>
              try_models eng env q n (m' # ms') w0 = (Some r0, w0'))"
proof (intro conjI allI impI)
  show "search eng env q (Some n) w = (Inr r, w2)"
    using assms by (simp add: search_def)
  show "\<exists>resp. http env (sent w1) (ChatWithTools m q) = Inr resp
                \<and> getitem resp ''model'' = Inr (model_used r)"
    by (rule search_with_model_origin(1) [OF assms(3)])
  show "models_asked (drop (length (sent w)) (sent w2)) = [current_model eng, m]"
  proof -
    from search_with_model_sent [OF assms(1)]
    obtain xs where xs: "sent w1 = sent w @ ChatWithTools (current_model eng) q # xs"
      "list_all (inner_request eng) xs" by blast
    from search_with_model_sent [OF assms(3)]
    obtain ys where ys: "sent w2 = sent w1 @ ChatWithTools m q # ys"
      "list_all (inner_request eng) ys" by blast
    have "drop (length (sent w)) (sent w2)
            = (ChatWithTools (current_model eng) q # xs) @ (ChatWithTools m q # ys)"
      using xs(1) ys(1) by simp
    then show ?thesis
      using xs(2) ys(2) by (simp add: models_asked_append models_asked_inner del: append_Cons)
  qed
next
  fix mr res w'
  assume s: "search eng env q mr w = (res, w')"
  from search_sent [OF s]
  show "\<exists>k. k \<le> Suc (length (fallback_models eng))
                 \<and> models_asked (drop (length (sent w)) (sent w'))
                     = take k (current_model eng # fallback_models eng)"
    by auto
next
  fix mr e' w'
  assume s: "search eng env q mr w = (Inl e', w')"
  from search_raises_from_fallback [OF s]
  obtain n' w0 where f: "fallback_search eng env q n' w0 = (Inl e', w')" by blast
  show "\<not> is_RequestException e'"
    by (rule fallback_search_raises(2) [OF f])
  show "\<exists>n' w0. fallback_search eng env q n' w0 = (Inl e', w')"
    using f by blast
next
  fix m' ms' w0 e0 w0'
  assume "search_with_model eng env q n m' w0 = (Inl e0, w0')"
  then show "try_models eng env q n (m' # ms') w0 = try_models eng env q n ms' w0'"
    by simp
next
  fix m' ms' w0 r0 w0'
  assume "search_with_model eng env q n m' w0 = (Inr r0, w0')"
  then show "try_models eng env q n (m' # ms') w0 = (Some r0, w0')"
    by simp
qed

theorem cascade_order_witness:
  "fallback_models two_models = [''backup'']
   \<and> fst (search_with_model two_models (env_backup_text ''backup'') ''q'' 3 ''primary'' world0)
       = Inl (AIError ''OpenRouter API request failed: connection refused'')
   \<and> fst (search two_models (env_backup_text ''backup'') ''q'' (Some 3) world0)
       = Inr \<lparr>query = ''q'', results = [], analysis = JStr ''No search needed.'',
              model_used = JStr ''backup'', total_results = 0\<rparr>"
proof -
  define w1 where "w1 = snd (search_with_model two_models (env_backup_text ''backup'') ''q'' 3 ''primary'' world0)"
  define w2 where "w2 = snd (search_with_model two_models (env_backup_text ''backup'') ''q'' 3 ''backup'' w1)"
  have f1: "fst (search_with_model two_models (env_backup_text ''backup'') ''q'' 3 ''primary'' world0)
       = Inl (AIError ''OpenRouter API request failed: connection refused'')"
    by (simp add: run_simps)
  have h1: "search_with_model two_models (env_backup_text ''backup'') ''q'' 3 (current_model two_models) world0
       = (Inl (AIError ''OpenRouter API request failed: connection refused''), w1)"
    using pair_from_fst [OF f1] by (simp add: w1_def two_models_def)
  have h2: "fallback_models two_models = ''backup'' # []"
    by (simp add: two_models_def)
  have f3: "fst (search_with_model two_models (env_backup_text ''backup'') ''q'' 3 ''backup'' w1)
       = Inr \<lparr>query = ''q'', results = [], analysis = JStr ''No search needed.'',
              model_used = JStr ''backup'', total_results = 0\<rparr>"
    by (simp add: w1_def run_simps)
  have h3: "search_with_model two_models (env_backup_text ''backup'') ''q'' 3 ''backup'' w1
       = (Inr \<lparr>query = ''q'', results = [], analysis = JStr ''No search needed.'',
              model_used = JStr ''backup'', total_results = 0\<rparr>, w2)"
    using pair_from_fst [OF f3] by (simp add: w2_def)
  from cascade_order [OF h1 h2 h3] f1 h2 show ?thesis by simp
qed

text \<open>
  C3 as stated fails where it says that \<open>model_used\<close> is the first fallback's identifier:
  the primary cannot be reached, the fallback \<open>backup\<close> answers, the gateway reports the
  model as \<open>provider/backup-v2\<close>, and that is what \<open>model_used\<close> holds.
\<close>

theorem model_used_is_reported_model:
  "fst (search two_models (env_backup_text ''provider/backup-v2'') ''q'' (Some 3) world0)
     = Inr \<lparr>query = ''q'', results = [], analysis = JStr ''No search needed.'',
            model_used = JStr ''provider/backup-v2'', total_results = 0\<rparr>
   \<and> models_asked (sent (snd (search two_models (env_backup_text ''provider/backup-v2'')
                                  ''q'' (Some 3) world0)))
       = [''primary'', ''backup'']"
  by (simp add: run_simps)

section \<open>Tool invocations\<close>




section \<open>Failure of the analysis request\<close>




section \<open>A model that answers without the tool\<close>

text \<open>
  A response whose message has no \<open>tool_calls\<close> key, or a list of tool calls none of
  which names the retrieval tool, ends the cascade at this model: the result has no
  records, \<open>total_results\<close> is 0, the analysis is the message's content as it is, and the
  only request sent is the one to this model.
\<close>

lemma direct_answer_returned:
  assumes "http env (sent w) (ChatWithTools model q) = Inr resp"
    and "response_message resp = Inr (JObj msg)"
    and "map_of msg ''tool_calls'' = None
         \<or> (\<exists>tcs. map_of msg ''tool_calls'' = Some (JArr tcs) \<and> list_all other_tool tcs)"
    and "map_of msg ''content'' = Some text"
    and "getitem resp ''model'' = Inr m"
  shows "try_models eng env q n (model # models) w =
           (Some \<lparr>query = q, results = [], analysis = text, model_used = m, total_results = 0\<rparr>,
            w\<lparr>sent := sent w @ [ChatWithTools model q]\<rparr>)
         \<and> (model = current_model eng \<longrightarrow>
              search eng env q (Some n) w =
                (Inr \<lparr>query = q, results = [], analysis = text, model_used = m, total_results = 0\<rparr>,
                 w\<lparr>sent := sent w @ [ChatWithTools model q]\<rparr>))"
proof -
  have d: "direct_response resp q (JObj msg) =
             Inr \<lparr>query = q, results = [], analysis = text, model_used = m, total_results = 0\<rparr>"
    using assms(4,5) by (simp add: direct_response_def bind_exn_def)
  have s: "search_with_model eng env q n model w =
             (Inr \<lparr>query = q, results = [], analysis = text, model_used = m, total_results = 0\<rparr>,
              w\<lparr>sent := sent w @ [ChatWithTools model q]\<rparr>)"
    by (simp add: search_with_model_body [OF assms(1)] process_try_direct [OF assms(2,3)] d)
  show ?thesis
  proof (intro conjI impI)
    show "try_models eng env q n (model # models) w =
           (Some \<lparr>query = q, results = [], analysis = text, model_used = m, total_results = 0\<rparr>,
            w\<lparr>sent := sent w @ [ChatWithTools model q]\<rparr>)"
      using s by simp
  next
    assume "model = current_model eng"
    then show "search eng env q (Some n) w =
                (Inr \<lparr>query = q, results = [], analysis = text, model_used = m, total_results = 0\<rparr>,
                 w\<lparr>sent := sent w @ [ChatWithTools model q]\<rparr>)"
      using s by (simp add: search_def)
  qed
qed

lemma direct_answer_example:
  "search two_models env_direct ''q'' (Some 3) world0
     = (Inr \<lparr>query = ''q'', results = [], analysis = JStr ''No search needed.'',
             model_used = JStr ''primary'', total_results = 0\<rparr>,
        world0\<lparr>sent := sent world0 @ [ChatWithTools ''primary'' ''q'']\<rparr>)"
proof -
  have h1: "http env_direct (sent world0) (ChatWithTools ''primary'' ''q'')
              = Inr (text_response ''primary'' ''No search needed.'')"
    by (simp add: env_direct_def sample_env_def scripted_def)
  have h2: "response_message (text_response ''primary'' ''No search needed.'')
              = Inr (JObj [(''role'', JStr ''assistant''), (''content'', JStr ''No search needed.'')])"
    by (simp add: response_message_def text_response_def bind_exn_def)
  have h3: "map_of [(''role'', JStr ''assistant''), (''content'', JStr ''No search needed.'')]
              ''tool_calls'' = None
            \<or> (\<exists>tcs. map_of [(''role'', JStr ''assistant''), (''content'', JStr ''No search needed.'')]
                        ''tool_calls'' = Some (JArr tcs) \<and> list_all other_tool tcs)"
    by simp
  have h4: "map_of [(''role'', JStr ''assistant''), (''content'', JStr ''No search needed.'')]
              ''content'' = Some (JStr ''No search needed.'')"
    by simp
  have h5: "getitem (text_response ''primary'' ''No search needed.'') ''model'' = Inr (JStr ''primary'')"
    by (simp add: text_response_def)
  from direct_answer_returned [OF h1 h2 h3 h4 h5, of two_models 3 "[''backup'']"]
  show ?thesis by (simp add: two_models_def)
qed

text \<open>
  C6: a response without an invocation of the retrieval tool is claimed to end the search
  with the model's text as the analysis. The primary model answers in text and its
  message carries \<open>tool_calls\<close> as null: the key is in the message, the loop over the
  tool calls iterates \<open>None\<close> and raises a \<open>TypeError\<close>, the attempt with the primary is
  abandoned, and the search returns what the fallback model answered instead.
\<close>

theorem null_tool_calls_abandon_model:
  "fst (search_with_model two_models env_null_tools ''q'' 3 ''primary'' world0) = Inl TypeError
   \<and> fst (search two_models env_null_tools ''q'' (Some 3) world0)
       = Inr \<lparr>query = ''q'', results = [], analysis = JStr ''Backup answer.'',
              model_used = JStr ''backup'', total_results = 0\<rparr>"
  by (simp add: run_simps)

section \<open>The model of the analysis request\<close>

lemma get_ai_analysis_world:
  "snd (get_ai_analysis eng env q f w) = w\<lparr>sent := sent w @ [ChatAnalysis (current_model eng) q f]\<rparr>"
  by (simp add: get_ai_analysis_def exchange_def split: sum.splits)

lemma retrieve_and_analyse_world:
  assumes "search_content env sq sm w = (Inr rs, w2)" and "format_results_for_ai env rs = Inr f"
  shows "snd (retrieve_and_analyse eng env resp q sq sm w)
           = w2\<lparr>sent := sent w2 @ [ChatAnalysis (current_model eng) q f]\<rparr>"
proof -
  obtain a w3 where g: "get_ai_analysis eng env q f w2 = (a, w3)"
    by (cases "get_ai_analysis eng env q f w2")
  then have "w3 = w2\<lparr>sent := sent w2 @ [ChatAnalysis (current_model eng) q f]\<rparr>"
    using get_ai_analysis_world [of eng env q f w2] by simp
  then show ?thesis
    using assms g by (cases a) (simp_all add: retrieve_and_analyse_def)
qed

lemma analysis_models_append:
  "analysis_models (xs @ ys) = analysis_models xs @ analysis_models ys"
  by (induction xs rule: analysis_models.induct) simp_all

text \<open>
  C10: when the response of a model, at any position of the cascade, calls the retrieval
  tool and the content is fetched and formatted, the attempt sends the analysis request
  for the user's query and the formatted results to the engine's \<open>current_model\<close>, the
  configured primary model, right after the fetch, whichever model was asked; the request
  is in the log of the cascade from there, and of the search when the model is the
  primary. And no analysis request of a search names another model.
\<close>

theorem analysis_request_names_current_model:
  assumes "http env (sent w0) (ChatWithTools model q) = Inr resp"
    and "response_message resp = Inr (JObj msg)"
    and "map_of msg ''tool_calls'' = Some (JArr (pre @ tc # rest))"
    and "list_all other_tool pre"
    and "tool_name tc = Inr (JStr ''search_wordpress'')"
    and "getitem tc ''function'' = Inr f"
    and "getitem f ''arguments'' = Inr (JStr s)"
    and "json_loads env s = Inr (JObj kv)"
    and "search_content env (dict_get kv ''query'' (JStr q)) (dict_get kv ''maxResults'' (JInt n))
           (w0\<lparr>sent := sent w0 @ [ChatWithTools model q]\<rparr>) = (Inr rs, w2)"
    and "format_results_for_ai env rs = Inr formatted"
  shows "sent (snd (search_with_model eng env q n model w0))
           = sent w2 @ [ChatAnalysis (current_model eng) q formatted]
         \<and> (\<exists>later. sent (snd (try_models eng env q n (model # models) w0))
                = sent w2 @ ChatAnalysis (current_model eng) q formatted # later)
         \<and> (model = current_model eng \<longrightarrow>
              (\<exists>later. sent (snd (search eng env q (Some n) w0))
                 = sent w2 @ ChatAnalysis (current_model eng) q formatted # later))
         \<and> list_all (analysis_to (current_model eng))
              (drop (length (sent w)) (sent (snd (search eng env q mr w))))"
proof (intro conjI impI)
  define w1 where "w1 = w0\<lparr>sent := sent w0 @ [ChatWithTools model q]\<rparr>"
  define w3 where "w3 = w2\<lparr>sent := sent w2 @ [ChatAnalysis (current_model eng) q formatted]\<rparr>"
  have rs: "run_search_tool eng env resp q n tc w1 =
              retrieve_and_analyse eng env resp q
                (dict_get kv ''query'' (JStr q)) (dict_get kv ''maxResults'' (JInt n)) w1"
    using assms(6,7,8) by (simp add: run_search_tool_def bind_exn_def dict_get_def)
  have "snd (retrieve_and_analyse eng env resp q
                (dict_get kv ''query'' (JStr q)) (dict_get kv ''maxResults'' (JInt n)) w1) = w3"
    using retrieve_and_analyse_world [OF assms(9,10)] by (simp add: w1_def w3_def)
  then have rw: "snd (run_search_tool eng env resp q n tc w1) = w3"
    by (simp add: rs)
  have "search_with_model eng env q n model w0 =
           (case run_search_tool eng env resp q n tc w1 of
              (Inl e, w2) \<Rightarrow> (Inl (search_with_model_except (process_ai_response_except e)), w2)
            | (Inr r, w2) \<Rightarrow> (Inr r, w2))"
    by (simp add: search_with_model_body [OF assms(1)] process_try_tool [OF assms(2,3,4,5)] w1_def)
  then have sw: "snd (search_with_model eng env q n model w0) = w3"
    using rw by (cases "run_search_tool eng env resp q n tc w1") (auto split: sum.splits)
  show a: "sent (snd (search_with_model eng env q n model w0))
           = sent w2 @ [ChatAnalysis (current_model eng) q formatted]"
    by (simp add: sw w3_def)
  have t: "\<exists>later. sent (snd (try_models eng env q n (model # ms) w0))
                = sent w2 @ ChatAnalysis (current_model eng) q formatted # later" for ms
  proof (cases "fst (search_with_model eng env q n model w0)")
    case (Inr r)
    then have "search_with_model eng env q n model w0 = (Inr r, w3)"
      using sw by (metis prod.collapse)
    then show ?thesis by (simp add: w3_def)
  next
    case (Inl e)
    then have s: "search_with_model eng env q n model w0 = (Inl e, w3)"
      using sw by (metis prod.collapse)
    obtain r' w' where t': "try_models eng env q n ms w3 = (r', w')"
      by (cases "try_models eng env q n ms w3")
    from try_models_sent [OF t'] obtain xs where "sent w' = sent w3 @ xs" by blast
    then show ?thesis using s t' by (simp add: w3_def)
  qed
  show "\<exists>later. sent (snd (try_models eng env q n (model # models) w0))
                = sent w2 @ ChatAnalysis (current_model eng) q formatted # later"
    by (rule t)
  show "list_all (analysis_to (current_model eng))
              (drop (length (sent w)) (sent (snd (search eng env q mr w))))"
  proof -
    obtain r w' where s: "search eng env q mr w = (r, w')"
      by (cases "search eng env q mr w")
    from search_sent [OF s] show ?thesis using s by auto
  qed
  assume m: "model = current_model eng"
  obtain r1 w4 where t1: "try_models eng env q n (model # fallback_models eng) w0 = (r1, w4)"
    by (cases "try_models eng env q n (model # fallback_models eng) w0")
  from t [of "fallback_models eng"] t1
  obtain later where l: "sent w4 = sent w2 @ ChatAnalysis (current_model eng) q formatted # later"
    by auto
  show "\<exists>later. sent (snd (search eng env q (Some n) w0))
                 = sent w2 @ ChatAnalysis (current_model eng) q formatted # later"
  proof (cases r1)
    case (Some res)
    then show ?thesis using t1 l m by (simp add: search_def)
  next
    case None
    obtain r5 w5 where f: "fallback_search eng env q n w4 = (r5, w5)"
      by (cases "fallback_search eng env q n w4")
    from fallback_search_extends [OF f] obtain ys where "sent w5 = sent w4 @ ys"
      unfolding extends_by_iff by blast
    then show ?thesis using t1 l m None f by (simp add: search_def)
  qed
qed

theorem analysis_request_witness:
  "analysis_models (sent (snd (search_with_model two_models env_backup_tool ''q'' 3 ''backup''
       (world0\<lparr>sent := [ChatWithTools ''primary'' ''q'']\<rparr>)))) = [''primary'']
   \<and> analysis_models (sent (snd (search two_models env_backup_tool ''q'' (Some 3) world0))) = [''primary'']
   \<and> fst (search two_models env_backup_tool ''q'' (Some 3) world0)
       = Inr \<lparr>query = ''q'', results = five_records, analysis = JStr ''Five posts match.'',
              model_used = JStr ''backup'', total_results = 5\<rparr>"
proof -
  define w0 where "w0 = world0\<lparr>sent := [ChatWithTools ''primary'' ''q'']\<rparr>"
  define tc where "tc = JObj [(''id'', JStr ''call_1''), (''type'', JStr ''function''),
     (''function'', JObj [(''name'', JStr ''search_wordpress''), (''arguments'', JStr five_args)])]"
  define kv where "kv = [(''query'', JStr ''posts''), (''maxResults'', JInt 5)]"
  define w1 where "w1 = w0\<lparr>sent := sent w0 @ [ChatWithTools ''backup'' ''q'']\<rparr>"
  define w2 where "w2 = snd (search_content env_backup_tool (dict_get kv ''query'' (JStr ''q''))
                               (dict_get kv ''maxResults'' (JInt 3)) w1)"
  have h1: "http env_backup_tool (sent w0) (ChatWithTools ''backup'' ''q'')
              = Inr (tool_call_response ''backup'' five_args)"
    by (simp add: env_backup_tool_def sample_env_def scripted_def primary_then_def)
  have h2: "response_message (tool_call_response ''backup'' five_args)
              = Inr (JObj [(''role'', JStr ''assistant''), (''content'', JNull),
                           (''tool_calls'', JArr [tc])])"
    by (simp add: response_message_def tool_call_response_def bind_exn_def tc_def)
  have h3: "map_of [(''role'', JStr ''assistant''), (''content'', JNull), (''tool_calls'', JArr [tc])]
              ''tool_calls'' = Some (JArr ([] @ tc # []))"
    by simp
  have h4: "list_all other_tool []" by simp
  have h5: "tool_name tc = Inr (JStr ''search_wordpress'')"
    by (simp add: tool_name_def tc_def bind_exn_def)
  have h6: "getitem tc ''function''
              = Inr (JObj [(''name'', JStr ''search_wordpress''), (''arguments'', JStr five_args)])"
    by (simp add: tc_def)
  have h7: "getitem (JObj [(''name'', JStr ''search_wordpress''), (''arguments'', JStr five_args)])
              ''arguments'' = Inr (JStr five_args)"
    by simp
  have h8: "json_loads env_backup_tool five_args = Inr (JObj kv)"
    by (simp add: env_backup_tool_def sample_env_def sample_loads_def kv_def)
  have f9: "fst (search_content env_backup_tool (dict_get kv ''query'' (JStr ''q''))
                   (dict_get kv ''maxResults'' (JInt 3)) w1) = Inr five_records"
    by (simp add: kv_def w1_def w0_def run_simps)
  have h9: "search_content env_backup_tool (dict_get kv ''query'' (JStr ''q''))
              (dict_get kv ''maxResults'' (JInt 3))
              (w0\<lparr>sent := sent w0 @ [ChatWithTools ''backup'' ''q'']\<rparr>) = (Inr five_records, w2)"
    using pair_from_fst [OF f9] by (simp add: w2_def w1_def)
  obtain formatted where h10: "format_results_for_ai env_backup_tool five_records = Inr formatted"
    by (simp add: format_results_for_ai_def format_result_def bind_exn_def five_records_def
          post_record_def)
  have s2: "analysis_models (sent w2) = []"
    by (simp add: w2_def kv_def w1_def w0_def run_simps)
  from analysis_request_names_current_model [OF h1 h2 h3 h4 h5 h6 h7 h8 h9 h10, of two_models]
  have "sent (snd (search_with_model two_models env_backup_tool ''q'' 3 ''backup'' w0))
          = sent w2 @ [ChatAnalysis (current_model two_models) ''q'' formatted]"
    by blast
  then have a: "analysis_models (sent (snd (search_with_model two_models env_backup_tool ''q'' 3
                   ''backup'' w0))) = [''primary'']"
    by (simp add: analysis_models_append s2 two_models_def)
  have b: "analysis_models (sent (snd (search two_models env_backup_tool ''q'' (Some 3) world0)))
             = [''primary'']"
    by (simp add: run_simps)
  have c: "fst (search two_models env_backup_tool ''q'' (Some 3) world0)
       = Inr \<lparr>query = ''q'', results = five_records, analysis = JStr ''Five posts match.'',
              model_used = JStr ''backup'', total_results = 5\<rparr>"
    by (simp add: run_simps)
  from a b c show ?thesis by (simp add: w0_def)
qed

end
